theory Spec2Isabelle
  imports Complex_Main "HOL-Library.Char_ord" "HOL-Library.List_Lexorder"
    "HOL-Library.Multiset" "HOL-Library.Sublist"
begin

section \<open>Values, messages and the world the extractor acts on\<close>

text \<open>
  Embedding of \<^verbatim>\<open>src/sensors/lidar.py\<close>. Python exceptions are values of
  \<open>error\<close>; an operation that can raise returns \<open>error + 'a\<close> or, when it also
  changes the world, an \<open>error option\<close> next to the world it leaves behind.

  What is outside the file is modelled as little as the code needs: the timestamp of a
  message and the parsing and projection of a laser scan are parameters (record
  \<open>env\<close>); \<^verbatim>\<open>read_points\<close> and \<^verbatim>\<open>read_points_list\<close> of
  \<^verbatim>\<open>sensor_msgs.point_cloud2\<close>, \<^verbatim>\<open>str.replace\<close>, \<^verbatim>\<open>os.path.join\<close>,
  \<^verbatim>\<open>ndarray.any\<close>, \<^verbatim>\<open>np.sort\<close> and \<^verbatim>\<open>np.savetxt\<close> are written out as
  they are documented. \<^verbatim>\<open>o3d.utility.Vector3dVector\<close> accepts an array of
  shape (n, 3) only, so it raises on \<^verbatim>\<open>np.array([])\<close>, the array of a frame without
  points. Given a cloud with points, \<^verbatim>\<open>o3d.io.write_point_cloud\<close> is taken to store
  it at the path, and \<^verbatim>\<open>np.savetxt\<close> the text; failures of the file system, the
  progress bar and the printed lines are not modelled.
\<close>

datatype error =
    ValueError string
  | TypeError string
  | AssertionError
  | AttributeError string
  | RuntimeError string
  | OverflowError string
  | Raised string

text \<open>
  A numeric field of a point: a double is not-a-number, an infinity or the rational it
  denotes; an integer field (ring, t) is the rational that is this integer. Arithmetic on
  doubles rounds, so the one product the code computes is a parameter (\<open>float_mul\<close>
  below), as is the double that numpy stores for a Python int (\<open>int_to_float\<close>).
\<close>

datatype fval = NaN | PInf | NInf | Num rat

text \<open>
  A \<^verbatim>\<open>sensor_msgs/PointCloud2\<close>: the field names in layout order and one row of
  values per point, in the same order.
\<close>

record cloud2 =
  pc_fields :: "string list"
  pc_rows :: "fval list list"

text \<open>
  A raw message of the log: its text rendering (what \<^verbatim>\<open>str(msg)\<close> returns) and, when
  it is a PointCloud2 message, its point data.
\<close>

record raw_msg =
  msg_text :: string
  msg_cloud :: "cloud2 option"

text \<open>What \<^verbatim>\<open>msg_to_timestamp\<close> is called on: a message object or a Python string.\<close>

datatype pyval = PyStr string | PyMsg raw_msg

text \<open>A log segment: the recorded (topic, message) pairs in order.\<close>

type_synonym bag = "(string \<times> raw_msg) list"

text \<open>
  Files on disk: a point-cloud file holds the points and, when set, the normals channel;
  the manifest is text.
\<close>

datatype disk_file = PLY "fval list list" "fval list list option" | Text string

text \<open>
  The effects in the order the code performs them: a call of \<^verbatim>\<open>loadHokuyo\<close> on a
  payload, \<^verbatim>\<open>data.append\<close> of a filename, a file written at a path.
\<close>

datatype event = EvLoad string | EvAppend string | EvWrite string

record world =
  files :: "string \<rightharpoonup> disk_file"
  trace :: "event list"

text \<open>
  The attributes of a \<^verbatim>\<open>LidarExtraction\<close> object. \<open>path_save\<close> does not exist
  before \<^verbatim>\<open>initialize\<close> has run.
\<close>

record extractor =
  topic :: string
  bags :: "bag list"
  path_root :: string
  name :: string
  sensor :: string
  available_point_time :: bool
  path_save :: "string option"

text \<open>
  The collaborators that are not part of \<^verbatim>\<open>lidar.py\<close>:
  \<^verbatim>\<open>utils.tools.msg_to_timestamp\<close>; the chain \<^verbatim>\<open>yaml.safe_load\<close>,
  \<^verbatim>\<open>LaserScan(...)\<close>, \<^verbatim>\<open>LaserProjection().projectLaser\<close> that \<^verbatim>\<open>loadHokuyo\<close>
  runs on a payload (it may raise); \<^verbatim>\<open>BaseExtraction.getPathSave\<close>; the product of
  two doubles; the conversion of a Python int to the double of a numpy array.
\<close>

record env =
  msg_to_timestamp :: "pyval \<Rightarrow> int"
  project_scan :: "string \<Rightarrow> error + cloud2"
  getPathSave :: "extractor \<Rightarrow> string"
  float_mul :: "fval \<Rightarrow> fval \<Rightarrow> fval"
  int_to_float :: "int \<Rightarrow> fval"

section \<open>Python and library primitives\<close>

text \<open>\<^verbatim>\<open>str(n)\<close> for a Python int.\<close>

fun str_nat :: "nat \<Rightarrow> string" where
  "str_nat n =
     (if n < 10 then [''0123456789'' ! n]
      else str_nat (n div 10) @ [''0123456789'' ! (n mod 10)])"

declare str_nat.simps [simp del]

definition str_int :: "int \<Rightarrow> string" where
  "str_int i = (if i < 0 then ''-'' @ str_nat (nat (- i)) else str_nat (nat i))"

text \<open>
  \<^verbatim>\<open>int(x)\<close> for a float: truncation toward zero; ValueError on NaN, OverflowError on
  an infinity.
\<close>

definition py_int :: "fval \<Rightarrow> error + int" where
  "py_int x =
     (case x of
        NaN \<Rightarrow> Inl (ValueError ''cannot convert float NaN to integer'')
      | PInf \<Rightarrow> Inl (OverflowError ''cannot convert float infinity to integer'')
      | NInf \<Rightarrow> Inl (OverflowError ''cannot convert float infinity to integer'')
      | Num q \<Rightarrow> Inr (if 0 \<le> q then \<lfloor>q\<rfloor> else \<lceil>q\<rceil>))"

text \<open>
  \<^verbatim>\<open>s.replace(old, new)\<close>: every non-overlapping occurrence of \<open>old\<close>, scanning from
  the left; for an empty \<open>old\<close> Python inserts \<open>new\<close> before every character and at the end.
\<close>

function py_replace :: "string \<Rightarrow> string \<Rightarrow> string \<Rightarrow> string" where
  "py_replace old new s =
     (if old = [] then new @ concat (map (\<lambda>c. c # new) s)
      else if s = [] then []
      else if take (length old) s = old
        then new @ py_replace old new (drop (length old) s)
      else hd s # py_replace old new (tl s))"
  by pat_completeness auto
termination
  by (relation "measure (\<lambda>(old, new, s). length s)") auto

declare py_replace.simps [simp del]

text \<open>\<^verbatim>\<open>os.path.join(a, b)\<close> on POSIX.\<close>

definition path_join :: "string \<Rightarrow> string \<Rightarrow> string" where
  "path_join a b =
     (if b \<noteq> [] \<and> hd b = CHR ''/'' then b
      else if a = [] \<or> last a = CHR ''/'' then a @ b
      else a @ ''/'' @ b)"

text \<open>
  \<^verbatim>\<open>sensor_msgs.point_cloud2.read_points\<close>: each point as the tuple of the values of
  those fields of the cloud that are among \<open>field_names\<close>, in layout order; with
  \<^verbatim>\<open>skip_nans\<close> a point is left out when any value of its tuple is NaN.
\<close>

definition select_fields :: "string list \<Rightarrow> string list \<Rightarrow> fval list \<Rightarrow> fval list" where
  "select_fields field_names flds row =
     map snd (filter (\<lambda>fv. fst fv \<in> set field_names) (zip flds row))"

definition read_points :: "cloud2 \<Rightarrow> string list \<Rightarrow> bool \<Rightarrow> fval list list" where
  "read_points cloud field_names skip_nans =
     filter (\<lambda>p. \<not> skip_nans \<or> NaN \<notin> set p)
       (map (select_fields field_names (pc_fields cloud)) (pc_rows cloud))"

text \<open>
  \<^verbatim>\<open>read_points_list\<close>: asserts that the message is a PointCloud2 and makes a named
  tuple with the fields \<open>field_names\<close> of each point read; \<^verbatim>\<open>Point._make\<close> raises
  TypeError on a tuple of another length.
\<close>

definition read_points_list :: "raw_msg \<Rightarrow> string list \<Rightarrow> bool \<Rightarrow> error + fval list list" where
  "read_points_list msg field_names skip_nans =
     (case msg_cloud msg of
        None \<Rightarrow> Inl AssertionError
      | Some cloud \<Rightarrow>
          (let ps = read_points cloud field_names skip_nans
           in if list_all (\<lambda>p. length p = length field_names) ps then Inr ps
              else Inl (TypeError ''Point._make'')))"

text \<open>\<^verbatim>\<open>ndarray.any()\<close>: some element is truthy, that is, not zero (NaN is truthy).\<close>

definition np_any :: "fval list list \<Rightarrow> bool" where
  "np_any a = list_ex (\<lambda>row. list_ex (\<lambda>v. v \<noteq> Num 0) row) a"

text \<open>
  \<^verbatim>\<open>np.savetxt\<close> with \<^verbatim>\<open>fmt="%s"\<close>, newline \<^verbatim>\<open>"\n"\<close>, the header behind the comment
  prefix and an empty footer: the header line, then one line per row.
\<close>

definition savetxt :: "string \<Rightarrow> string \<Rightarrow> string list \<Rightarrow> string" where
  "savetxt comments header rows =
     concat (map (\<lambda>l. l @ [CHR 0x0A]) ((comments @ header) # rows))"

section \<open>The sensor list and the constructor\<close>

definition HOKUYO :: string where "HOKUYO = ''hokuyo''"
definition OUSTER :: string where "OUSTER = ''ouster''"
definition VELODYNE :: string where "VELODYNE = ''velodyne''"

definition Lidar_list :: "string list" where
  "Lidar_list = [HOKUYO, OUSTER, VELODYNE]"

definition CLOUD_HEADER :: string where "CLOUD_HEADER = ''timestamp [ns]''"

text \<open>
  \<^verbatim>\<open>LidarExtraction.__init__\<close>. The base class constructor, which is not in the file,
  is taken to keep its four arguments as attributes; the membership test and the three
  assignments are the source's.
\<close>

definition LidarExtraction_init ::
    "string \<Rightarrow> bag list \<Rightarrow> string \<Rightarrow> string \<Rightarrow> error + extractor" where
  "LidarExtraction_init tp bs rt lidar =
     (if \<not> (lidar \<in> set Lidar_list)
      then Inl (ValueError ([CHR 0x22] @ lidar @ [CHR 0x22] @ '' lidar sensor type not supported''))
      else Inr \<lparr>topic = tp, bags = bs, path_root = rt, name = lidar,
                sensor = lidar, available_point_time = False, path_save = None\<rparr>)"

definition initialize :: "env \<Rightarrow> extractor \<Rightarrow> extractor" where
  "initialize e self = self\<lparr>path_save := Some (getPathSave e self)\<rparr>"

section \<open>Writers\<close>

text \<open>
  \<^verbatim>\<open>o3d.utility.Vector3dVector(a)\<close>: the array must have shape (n, 3). The arrays
  the decoders build are \<^verbatim>\<open>np.array\<close> of a list of rows; for the empty list this is
  \<^verbatim>\<open>np.array([])\<close> of shape (0,), which is refused like every array whose rows do
  not have three values.
\<close>

definition Vector3dVector :: "fval list list \<Rightarrow> error + fval list list" where
  "Vector3dVector a =
     (if a \<noteq> [] \<and> list_all (\<lambda>row. length row = 3) a then Inr a
      else Inl (RuntimeError ''Vector3dVector''))"

text \<open>\<^verbatim>\<open>o3d.io.write_point_cloud\<close> and \<^verbatim>\<open>np.savetxt\<close> on the file system.\<close>

definition write_file :: "string \<Rightarrow> disk_file \<Rightarrow> world \<Rightarrow> world" where
  "write_file filename f w =
     w\<lparr>files := (files w)(filename \<mapsto> f), trace := trace w @ [EvWrite filename]\<rparr>"

text \<open>
  \<^verbatim>\<open>savePLY\<close>: the path, the points, the normals when \<^verbatim>\<open>normals.any()\<close>, the
  write; an exception at any step leaves the world as it was.
\<close>

definition savePLY ::
    "extractor \<Rightarrow> string \<Rightarrow> fval list list \<Rightarrow> fval list list \<Rightarrow> world \<Rightarrow> error option \<times> world" where
  "savePLY self nm points normals w =
     (case path_save self of
        None \<Rightarrow> (Some (AttributeError ''path_save''), w)
      | Some dir \<Rightarrow>
          (let filename = path_join dir nm
           in case Vector3dVector points of
                Inl ex \<Rightarrow> (Some ex, w)
              | Inr o3d_points \<Rightarrow>
                  (if np_any normals then
                     (case Vector3dVector normals of
                        Inl ex \<Rightarrow> (Some ex, w)
                      | Inr o3d_normals \<Rightarrow>
                          (None, write_file filename (PLY o3d_points (Some o3d_normals)) w))
                   else (None, write_file filename (PLY o3d_points None) w))))"

definition saveCSV :: "extractor \<Rightarrow> string list \<Rightarrow> world \<Rightarrow> error option \<times> world" where
  "saveCSV self data w =
     (case path_save self of
        None \<Rightarrow> (Some (AttributeError ''path_save''), w)
      | Some dir \<Rightarrow>
          (let filename = path_join dir ''data.csv''
           in (None, write_file filename (Text (savetxt ''# '' CLOUD_HEADER data)) w)))"

section \<open>Decoders\<close>

text \<open>
  \<^verbatim>\<open>loadHokuyo\<close>: parse the payload and project the scan; either step may raise.
\<close>

definition loadHokuyo :: "env \<Rightarrow> string \<Rightarrow> world \<Rightarrow> (error + cloud2) \<times> world" where
  "loadHokuyo e msg w = (project_scan e msg, w\<lparr>trace := trace w @ [EvLoad msg]\<rparr>)"

text \<open>The loop of \<^verbatim>\<open>singleHokuyo\<close>: \<^verbatim>\<open>x, y, z = pt\<close> raises unless the tuple has three values.\<close>

fun hokuyo_points :: "fval list list \<Rightarrow> fval list list \<Rightarrow> error + fval list list" where
  "hokuyo_points [] xyz_s = Inr xyz_s"
| "hokuyo_points (pt # pts) xyz_s =
     (case pt of
        [x, y, z] \<Rightarrow> hokuyo_points pts (xyz_s @ [ [x, y, z] ])
      | _ \<Rightarrow> Inl (ValueError ''unpack''))"

definition singleHokuyo ::
    "env \<Rightarrow> extractor \<Rightarrow> raw_msg \<Rightarrow> string list \<Rightarrow> world \<Rightarrow> error option \<times> string list \<times> world" where
  "singleHokuyo e self msg0 data w0 =
     (let msg = msg_text msg0;
          (r1, w1) = loadHokuyo e msg w0;
          (msg', r, w) =
            (case r1 of
               Inr cloud \<Rightarrow> (msg, Inr cloud, w1)
             | Inl _ \<Rightarrow>
                 (let msg2 = py_replace ''nan'' ''60'' msg;
                      (r2, w2) = loadHokuyo e msg2 w1
                  in (msg2, r2, w2)))
      in case r of
           Inl ex \<Rightarrow> (Some ex, data, w)
         | Inr cloud \<Rightarrow>
             (let timestamp = msg_to_timestamp e (PyStr msg');
                  filename = str_int timestamp @ ''.ply'';
                  data' = data @ [filename];
                  w' = w\<lparr>trace := trace w @ [EvAppend filename]\<rparr>
              in case hokuyo_points (read_points cloud [''x'', ''y'', ''z''] True) [] of
                   Inl ex \<Rightarrow> (Some ex, data', w')
                 | Inr xyz_s \<Rightarrow>
                     (let (r', w'') = savePLY self filename xyz_s [] w'
                      in (r', data', w''))))"

text \<open>The loop of \<^verbatim>\<open>singleOuster\<close>: \<^verbatim>\<open>x, y, z, i, t, r = pt\<close>.\<close>

fun ouster_points ::
    "fval list list \<Rightarrow> fval list list \<Rightarrow> fval list list
      \<Rightarrow> error + (fval list list \<times> fval list list)" where
  "ouster_points [] xyz_s irt_s = Inr (xyz_s, irt_s)"
| "ouster_points (pt # pts) xyz_s irt_s =
     (case pt of
        [x, y, z, i, t, r] \<Rightarrow> ouster_points pts (xyz_s @ [ [x, y, z] ]) (irt_s @ [ [i, r, t] ])
      | _ \<Rightarrow> Inl (ValueError ''unpack''))"

definition singleOuster ::
    "env \<Rightarrow> extractor \<Rightarrow> raw_msg \<Rightarrow> string list \<Rightarrow> world \<Rightarrow> error option \<times> string list \<times> world" where
  "singleOuster e self msg data w =
     (let field_names = [''x'', ''y'', ''z'', ''intensity'', ''t'', ''ring''];
          timestamp = msg_to_timestamp e (PyMsg msg);
          filename = str_int timestamp @ ''.ply'';
          data' = data @ [filename];
          w' = w\<lparr>trace := trace w @ [EvAppend filename]\<rparr>
      in case read_points_list msg field_names True of
           Inl ex \<Rightarrow> (Some ex, data', w')
         | Inr points \<Rightarrow>
             (case ouster_points points [] [] of
                Inl ex \<Rightarrow> (Some ex, data', w')
              | Inr (xyz_s, irt_s) \<Rightarrow>
                  (let (r', w'') = savePLY self filename xyz_s irt_s w'
                   in (r', data', w''))))"

text \<open>
  The body of the loop of \<^verbatim>\<open>singleVelodyne\<close> on one point: five values are unpacked
  when \<^verbatim>\<open>available_point_time\<close> is set, six otherwise; then
  \<^verbatim>\<open>t_ms = int(t_s * 1e9)\<close>, the truncation of the double product.
\<close>

definition velodyne_point :: "env \<Rightarrow> bool \<Rightarrow> fval list \<Rightarrow> error + (fval list \<times> fval list)" where
  "velodyne_point e apt pt =
     (if apt then
        (case pt of
           [x, y, z, i, r] \<Rightarrow> Inr ([x, y, z], [i, r, Num 0])
         | _ \<Rightarrow> Inl (ValueError ''unpack''))
      else
        (case pt of
           [x, y, z, i, r, t_s] \<Rightarrow>
             (case py_int (float_mul e t_s (Num (10 ^ 9))) of
                Inl ex \<Rightarrow> Inl ex
              | Inr t_ms \<Rightarrow> Inr ([x, y, z], [i, r, int_to_float e t_ms]))
         | _ \<Rightarrow> Inl (ValueError ''unpack'')))"

fun velodyne_points ::
    "env \<Rightarrow> bool \<Rightarrow> fval list list \<Rightarrow> fval list list \<Rightarrow> fval list list
      \<Rightarrow> error + (fval list list \<times> fval list list)" where
  "velodyne_points e apt [] xyz_s irt_s = Inr (xyz_s, irt_s)"
| "velodyne_points e apt (pt # pts) xyz_s irt_s =
     (case velodyne_point e apt pt of
        Inl ex \<Rightarrow> Inl ex
      | Inr (xyz, irt) \<Rightarrow> velodyne_points e apt pts (xyz_s @ [xyz]) (irt_s @ [irt]))"

definition singleVelodyne ::
    "env \<Rightarrow> extractor \<Rightarrow> raw_msg \<Rightarrow> string list \<Rightarrow> world \<Rightarrow> error option \<times> string list \<times> world" where
  "singleVelodyne e self msg data w =
     (let field_names = [''x'', ''y'', ''z'', ''intensity'', ''ring''];
          timestamp = msg_to_timestamp e (PyMsg msg);
          filename = str_int timestamp @ ''.ply'';
          data' = data @ [filename];
          w' = w\<lparr>trace := trace w @ [EvAppend filename]\<rparr>
      in case read_points_list msg field_names True of
           Inl ex \<Rightarrow> (Some ex, data', w')
         | Inr points \<Rightarrow>
             (case velodyne_points e (available_point_time self) points [] [] of
                Inl ex \<Rightarrow> (Some ex, data', w')
              | Inr (xyz_s, irt_s) \<Rightarrow>
                  (let (r', w'') = savePLY self filename xyz_s irt_s w'
                   in (r', data', w''))))"

section \<open>The run\<close>

text \<open>\<^verbatim>\<open>bag.read_messages(topics=...)\<close>: the messages recorded on one of the topics, in order.\<close>

definition read_messages :: "bag \<Rightarrow> string list \<Rightarrow> raw_msg list" where
  "read_messages b topics = map snd (filter (\<lambda>tm. fst tm \<in> set topics) b)"

text \<open>
  Modelled from the spec: \<^verbatim>\<open>BaseExtraction.isAvailable\<close> is not in the source file.
  The specification says that the extraction is skipped when no segments or no messages
  are available for the configured topic, so the extraction is available exactly when
  some segment holds a message on the topic.
\<close>

definition isAvailable :: "extractor \<Rightarrow> bool" where
  "isAvailable self = list_ex (\<lambda>b. read_messages b [topic self] \<noteq> []) (bags self)"

text \<open>The \<^verbatim>\<open>if/elif\<close> chain in the inner loop of \<^verbatim>\<open>extract\<close>; it has no \<^verbatim>\<open>else\<close>.\<close>

definition dispatch ::
    "env \<Rightarrow> extractor \<Rightarrow> raw_msg \<Rightarrow> string list \<Rightarrow> world \<Rightarrow> error option \<times> string list \<times> world" where
  "dispatch e self msg data w =
     (if sensor self = HOKUYO then singleHokuyo e self msg data w
      else if sensor self = OUSTER then singleOuster e self msg data w
      else if sensor self = VELODYNE then singleVelodyne e self msg data w
      else (None, data, w))"

fun extract_msgs ::
    "env \<Rightarrow> extractor \<Rightarrow> raw_msg list \<Rightarrow> string list \<Rightarrow> world \<Rightarrow> error option \<times> string list \<times> world" where
  "extract_msgs e self [] data w = (None, data, w)"
| "extract_msgs e self (msg # msgs) data w =
     (case dispatch e self msg data w of
        (Some ex, data', w') \<Rightarrow> (Some ex, data', w')
      | (None, data', w') \<Rightarrow> extract_msgs e self msgs data' w')"

fun extract_bags ::
    "env \<Rightarrow> extractor \<Rightarrow> bag list \<Rightarrow> string list \<Rightarrow> world \<Rightarrow> error option \<times> string list \<times> world" where
  "extract_bags e self [] data w = (None, data, w)"
| "extract_bags e self (b # bs) data w =
     (case extract_msgs e self (read_messages b [topic self]) data w of
        (Some ex, data', w') \<Rightarrow> (Some ex, data', w')
      | (None, data', w') \<Rightarrow> extract_bags e self bs data' w')"

text \<open>
  \<^verbatim>\<open>LidarExtraction.extract\<close> (the bare name is a command of Isabelle).
  \<^verbatim>\<open>np.sort\<close> of an array of strings orders them by code points, character by
  character, a proper prefix first: the order of \<open>sort\<close> on strings.
\<close>

definition extract_lidar :: "env \<Rightarrow> extractor \<Rightarrow> world \<Rightarrow> error option \<times> world" where
  "extract_lidar e self w =
     (if \<not> isAvailable self then (None, w)
      else
        (let self' = initialize e self
         in case extract_bags e self' (bags self') [] w of
              (Some ex, data, w') \<Rightarrow> (Some ex, w')
            | (None, data, w') \<Rightarrow> saveCSV self' (sort data) w'))"

section \<open>Vocabulary of the statements\<close>

text \<open>
  The definitions of this section are not part of the program: they name what the
  theorems talk about.
\<close>

abbreviation frame_name :: "int \<Rightarrow> string" where
  "frame_name ts \<equiv> str_int ts @ ''.ply''"

text \<open>
  The payload the Hokuyo decoder ends up with: the text of the message when it loads, the
  text with the substitution otherwise. The filename of the frame of a message: the
  Hokuyo decoder takes the timestamp of that payload, the other two that of the message.
\<close>

definition hokuyo_payload :: "env \<Rightarrow> raw_msg \<Rightarrow> string" where
  "hokuyo_payload e msg =
     (case project_scan e (msg_text msg) of
        Inr cloud \<Rightarrow> msg_text msg
      | Inl ex \<Rightarrow> py_replace ''nan'' ''60'' (msg_text msg))"

definition frame_file :: "env \<Rightarrow> extractor \<Rightarrow> raw_msg \<Rightarrow> string" where
  "frame_file e self msg =
     (if sensor self = HOKUYO then frame_name (msg_to_timestamp e (PyStr (hokuyo_payload e msg)))
      else frame_name (msg_to_timestamp e (PyMsg msg)))"

definition is_load :: "event \<Rightarrow> bool" where
  "is_load ev = (case ev of EvLoad s \<Rightarrow> True | _ \<Rightarrow> False)"

text \<open>The filenames appended and the paths written, in the order of the trace.\<close>

definition appended :: "event list \<Rightarrow> string list" where
  "appended tr = concat (map (\<lambda>ev. case ev of EvAppend f \<Rightarrow> [f] | _ \<Rightarrow> []) tr)"

definition written :: "event list \<Rightarrow> string list" where
  "written tr = concat (map (\<lambda>ev. case ev of EvWrite p \<Rightarrow> [p] | _ \<Rightarrow> []) tr)"

text \<open>The messages of the configured topic over all segments, in processing order.\<close>

definition topic_msgs :: "extractor \<Rightarrow> bag list \<Rightarrow> raw_msg list" where
  "topic_msgs self bs = concat (map (\<lambda>b. read_messages b [topic self]) bs)"

text \<open>The file at \<open>p\<close> is a point cloud with at least one point.\<close>

definition is_frame :: "world \<Rightarrow> string \<Rightarrow> bool" where
  "is_frame w p = (case files w p of Some (PLY pts ch) \<Rightarrow> pts \<noteq> [] | _ \<Rightarrow> False)"

definition w_empty :: world where
  "w_empty = \<lparr>files = Map.empty, trace = []\<rparr>"

text \<open>Whether a message decodes, seen from an empty world.\<close>

definition decodes :: "env \<Rightarrow> extractor \<Rightarrow> raw_msg \<Rightarrow> bool" where
  "decodes e self m = (fst (dispatch e self m [] w_empty) = None)"





section \<open>Example inputs\<close>

text \<open>Concrete messages, collaborators and extractors on which the theorems are instantiated.\<close>

definition ex_cloud :: cloud2 where
  "ex_cloud = \<lparr>pc_fields = [''x'', ''y'', ''z'', ''intensity'', ''t'', ''ring''],
               pc_rows = [ [Num 1, Num 2, Num 3, Num 4, Num 5, Num 6],
                          [NaN, Num 2, Num 3, Num 4, Num 5, Num 6] ]\<rparr>"

definition ex_dim_cloud :: cloud2 where
  "ex_dim_cloud = \<lparr>pc_fields = [''x'', ''y'', ''z'', ''intensity'', ''t'', ''ring''],
                   pc_rows = [ [Num 1, Num 2, Num 3, Num 4, Num 5, Num 6],
                              [Num 7, Num 8, Num 9, NaN, Num 5, Num 6] ]\<rparr>"

definition ex_void_cloud :: cloud2 where
  "ex_void_cloud = \<lparr>pc_fields = [''x'', ''y'', ''z'', ''intensity'', ''t'', ''ring''],
                    pc_rows = [ [NaN, Num 2, Num 3, Num 4, Num 5, Num 6] ]\<rparr>"

definition ex_timed_cloud :: cloud2 where
  "ex_timed_cloud = \<lparr>pc_fields = [''x'', ''y'', ''z'', ''intensity'', ''ring'', ''time''],
                     pc_rows = [ [Num 1, Num 2, Num 3, Num 4, Num 5, Num (2 / 1000)] ]\<rparr>"

definition ex_env :: env where
  "ex_env = \<lparr>msg_to_timestamp =
               (\<lambda>v. case v of PyStr s \<Rightarrow> int (length s) | PyMsg m \<Rightarrow> int (length (msg_text m))),
             project_scan =
               (\<lambda>s. if s = ''ok'' \<or> s = ''60'' then Inr ex_cloud
                    else if s = ''void'' then Inr ex_void_cloud
                    else Inl (Raised ''parse'')),
             getPathSave = (\<lambda>self. ''out''),
             float_mul = (\<lambda>a b. case (a, b) of (Num p, Num q) \<Rightarrow> Num (p * q) | _ \<Rightarrow> NaN),
             int_to_float = (\<lambda>n. Num (of_int n))\<rparr>"

definition ex_msg :: "string \<Rightarrow> raw_msg" where
  "ex_msg s = \<lparr>msg_text = s, msg_cloud = Some ex_cloud\<rparr>"

definition ex_void_msg :: raw_msg where
  "ex_void_msg = \<lparr>msg_text = ''void'', msg_cloud = Some ex_void_cloud\<rparr>"

definition ex_self :: "string \<Rightarrow> bool \<Rightarrow> extractor" where
  "ex_self lidar apt =
     \<lparr>topic = ''/points'',
      bags = [ [(''/points'', ex_msg ''bb''), (''/imu'', ex_msg ''i'')], [(''/points'', ex_msg ''a'')] ],
      path_root = ''data'', name = lidar, sensor = lidar, available_point_time = apt,
      path_save = Some ''out''\<rparr>"

definition ex_bags_swapped :: "bag list" where
  "ex_bags_swapped = [ [(''/points'', ex_msg ''a'')], [(''/imu'', ex_msg ''i''), (''/points'', ex_msg ''bb'')] ]"

section \<open>Properties of the writers, the loops and the decoders\<close>

lemma Vector3dVector_ok:
  "a \<noteq> [] \<Longrightarrow> \<forall>row\<in>set a. length row = 3 \<Longrightarrow> Vector3dVector a = Inr a"
  by (simp add: Vector3dVector_def list_all_iff)

lemma Vector3dVector_Nil: "Vector3dVector [] = Inl (RuntimeError ''Vector3dVector'')"
  by (simp add: Vector3dVector_def)

lemma Vector3dVector_Inr: "Vector3dVector a = Inr b \<Longrightarrow> b = a \<and> a \<noteq> []"
  by (auto simp: Vector3dVector_def split: if_splits)

lemma np_any_iff: "np_any a \<longleftrightarrow> (\<exists>row\<in>set a. \<exists>v\<in>set row. v \<noteq> Num 0)"
  by (simp add: np_any_def list_ex_iff)

lemma np_any_Nil: "\<not> np_any []"
  by (simp add: np_any_def)

lemma files_write_file: "files (write_file p f w) = (files w)(p \<mapsto> f)"
  and trace_write_file: "trace (write_file p f w) = trace w @ [EvWrite p]"
  by (simp_all add: write_file_def)

lemma savePLY_ready:
  assumes "path_save self = Some dir" and "points \<noteq> []"
    and "\<forall>row\<in>set points. length row = 3" and "\<forall>row\<in>set normals. length row = 3"
  shows "savePLY self nm points normals w =
     (None, write_file (path_join dir nm)
              (PLY points (if np_any normals then Some normals else None)) w)"
proof (cases "np_any normals")
  case True
  then have "normals \<noteq> []" by (auto simp: np_any_Nil)
  with assms True show ?thesis
    by (simp add: savePLY_def Let_def Vector3dVector_ok)
next
  case False
  with assms show ?thesis
    by (simp add: savePLY_def Let_def Vector3dVector_ok)
qed

lemma savePLY_unready:
  "path_save self = None \<Longrightarrow>
   savePLY self nm points normals w = (Some (AttributeError ''path_save''), w)"
  by (simp add: savePLY_def)

lemma savePLY_empty:
  "path_save self = Some dir \<Longrightarrow>
   savePLY self nm [] normals w = (Some (RuntimeError ''Vector3dVector''), w)"
  by (simp add: savePLY_def Let_def Vector3dVector_Nil)

lemma savePLY_None:
  assumes "savePLY self nm points normals w = (None, w')"
  shows "\<exists>dir. path_save self = Some dir \<and> points \<noteq> []
           \<and> w' = write_file (path_join dir nm)
                     (PLY points (if np_any normals then Some normals else None)) w"
  using assms
  by (auto simp: savePLY_def Let_def split: option.splits sum.splits if_splits
      dest!: Vector3dVector_Inr)

lemma savePLY_fails_unchanged:
  "savePLY self nm points normals w = (Some ex, w') \<Longrightarrow> w' = w"
  by (auto simp: savePLY_def Let_def split: option.splits sum.splits if_splits)

lemma savePLY_Nil_fails: "fst (savePLY self nm [] normals w) \<noteq> None"
  by (cases "path_save self") (simp_all add: savePLY_unready savePLY_empty)

lemma hokuyo_points_eq:
  "hokuyo_points pts acc =
     (if \<forall>p\<in>set pts. length p = 3 then Inr (acc @ pts) else Inl (ValueError ''unpack''))"
proof (induction pts arbitrary: acc)
  case Nil
  show ?case by simp
next
  case (Cons pt pts)
  show ?case
    by (auto simp: Cons.IH split: list.splits)
qed

lemma ouster_points_eq:
  "ouster_points pts xa ia =
     (if \<forall>p\<in>set pts. length p = 6
      then Inr (xa @ map (take 3) pts, ia @ map (\<lambda>p. [p ! 3, p ! 5, p ! 4]) pts)
      else Inl (ValueError ''unpack''))"
proof (induction pts arbitrary: xa ia)
  case Nil
  show ?case by simp
next
  case (Cons pt pts)
  show ?case
    by (auto simp: Cons.IH split: list.splits)
qed

lemma velodyne_point_True:
  "velodyne_point e True pt =
     (if length pt = 5 then Inr (take 3 pt, [pt ! 3, pt ! 4, Num 0]) else Inl (ValueError ''unpack''))"
  by (auto simp: velodyne_point_def split: list.splits)

lemma velodyne_points_True:
  "velodyne_points e True pts xa ia =
     (if \<forall>p\<in>set pts. length p = 5
      then Inr (xa @ map (take 3) pts, ia @ map (\<lambda>p. [p ! 3, p ! 4, Num 0]) pts)
      else Inl (ValueError ''unpack''))"
proof (induction pts arbitrary: xa ia)
  case Nil
  show ?case by simp
next
  case (Cons pt pts)
  show ?case
    by (simp add: Cons.IH velodyne_point_True)
qed

lemma velodyne_points_False_five:
  "\<forall>p\<in>set pts. length p = 5 \<Longrightarrow> pts \<noteq> [] \<Longrightarrow>
   velodyne_points e False pts xa ia = Inl (ValueError ''unpack'')"
  by (cases pts) (auto simp: velodyne_point_def split: list.splits)

lemma read_points_list_Inr:
  assumes "read_points_list msg names sk = Inr ps"
  shows "\<exists>cloud. msg_cloud msg = Some cloud \<and> ps = read_points cloud names sk
           \<and> (\<forall>p\<in>set ps. length p = length names)"
  using assms
  by (auto simp: read_points_list_def Let_def list_all_iff split: option.splits if_splits)


lemma take3_rows: "\<forall>p\<in>set ps. 3 \<le> length p \<Longrightarrow> \<forall>row\<in>set (map (take 3) ps). length row = 3"
  by auto

lemma singleOuster_eq:
  assumes "path_save self = Some dir"
    and "read_points_list msg [''x'', ''y'', ''z'', ''intensity'', ''t'', ''ring''] True = Inr ps"
    and "ps \<noteq> []"
  shows "singleOuster e self msg data w =
     (None, data @ [frame_name (msg_to_timestamp e (PyMsg msg))],
      write_file (path_join dir (frame_name (msg_to_timestamp e (PyMsg msg))))
        (PLY (map (take 3) ps)
           (if np_any (map (\<lambda>p. [p ! 3, p ! 5, p ! 4]) ps)
            then Some (map (\<lambda>p. [p ! 3, p ! 5, p ! 4]) ps) else None))
        (w\<lparr>trace := trace w @ [EvAppend (frame_name (msg_to_timestamp e (PyMsg msg)))]\<rparr>))"
proof -
  from read_points_list_Inr [OF assms(2)] have len: "\<forall>p\<in>set ps. length p = 6" by auto
  have sv: "\<And>nm w0. savePLY self nm (map (take 3) ps) (map (\<lambda>p. [p ! 3, p ! 5, p ! 4]) ps) w0 =
      (None, write_file (path_join dir nm)
        (PLY (map (take 3) ps)
           (if np_any (map (\<lambda>p. [p ! 3, p ! 5, p ! 4]) ps)
            then Some (map (\<lambda>p. [p ! 3, p ! 5, p ! 4]) ps) else None)) w0)"
    using len assms(3) by (intro savePLY_ready [OF assms(1)]) auto
  show ?thesis
    using len by (simp add: singleOuster_def Let_def assms(2) ouster_points_eq sv)
qed


lemma singleHokuyo_eq:
  assumes "path_save self = Some dir"
    and "project_scan e (msg_text msg) = Inr cloud \<and> pl = msg_text msg \<and> loads = [EvLoad pl]
       \<or> project_scan e (msg_text msg) = Inl ex \<and> pl = py_replace ''nan'' ''60'' (msg_text msg)
          \<and> project_scan e pl = Inr cloud \<and> loads = [EvLoad (msg_text msg), EvLoad pl]"
    and "\<forall>p\<in>set (read_points cloud [''x'', ''y'', ''z''] True). length p = 3"
    and "read_points cloud [''x'', ''y'', ''z''] True \<noteq> []"
  shows "singleHokuyo e self msg data w =
     (None, data @ [frame_name (msg_to_timestamp e (PyStr pl))],
      write_file (path_join dir (frame_name (msg_to_timestamp e (PyStr pl))))
        (PLY (read_points cloud [''x'', ''y'', ''z''] True) None)
        (w\<lparr>trace := trace w @ loads @ [EvAppend (frame_name (msg_to_timestamp e (PyStr pl)))]\<rparr>))"
proof -
  have sv: "\<And>nm w0. savePLY self nm (read_points cloud [''x'', ''y'', ''z''] True) [] w0 =
      (None, write_file (path_join dir nm) (PLY (read_points cloud [''x'', ''y'', ''z''] True) None) w0)"
    using savePLY_ready [OF assms(1,4,3), of "[]"] by (simp add: np_any_Nil)
  from assms(2,3) show ?thesis
    by (auto simp: singleHokuyo_def loadHokuyo_def Let_def hokuyo_points_eq sv)
qed

lemma singleOuster_None:
  assumes "singleOuster e self msg data w = (None, data', w')"
  shows "\<exists>dir ps. path_save self = Some dir \<and> ps \<noteq> []
           \<and> read_points_list msg [''x'', ''y'', ''z'', ''intensity'', ''t'', ''ring''] True = Inr ps"
  using assms
  by (auto simp: singleOuster_def Let_def ouster_points_eq
      split: sum.splits prod.splits if_splits dest!: savePLY_None)

lemma singleVelodyne_None:
  assumes "singleVelodyne e self msg data w = (None, data', w')"
  shows "\<exists>dir ps xyz_s irt_s. path_save self = Some dir
           \<and> read_points_list msg [''x'', ''y'', ''z'', ''intensity'', ''ring''] True = Inr ps
           \<and> velodyne_points e (available_point_time self) ps [] [] = Inr (xyz_s, irt_s)
           \<and> xyz_s \<noteq> []
           \<and> w' = write_file (path_join dir (frame_name (msg_to_timestamp e (PyMsg msg))))
                    (PLY xyz_s (if np_any irt_s then Some irt_s else None))
                    (w\<lparr>trace := trace w @ [EvAppend (frame_name (msg_to_timestamp e (PyMsg msg)))]\<rparr>)
           \<and> data' = data @ [frame_name (msg_to_timestamp e (PyMsg msg))]"
proof -
  let ?fn = "frame_name (msg_to_timestamp e (PyMsg msg))"
  let ?w = "w\<lparr>trace := trace w @ [EvAppend ?fn]\<rparr>"
  from assms obtain ps where
    r: "read_points_list msg [''x'', ''y'', ''z'', ''intensity'', ''ring''] True = Inr ps"
    by (cases "read_points_list msg [''x'', ''y'', ''z'', ''intensity'', ''ring''] True")
       (auto simp: singleVelodyne_def Let_def)
  from assms r obtain xyz_s irt_s where
    v: "velodyne_points e (available_point_time self) ps [] [] = Inr (xyz_s, irt_s)"
    by (cases "velodyne_points e (available_point_time self) ps [] []")
       (auto simp: singleVelodyne_def Let_def)
  from assms r v have sv: "savePLY self ?fn xyz_s irt_s ?w = (None, w')"
    and dt: "data' = data @ [?fn]"
    by (auto simp: singleVelodyne_def Let_def split: prod.splits)
  from savePLY_None [OF sv] r v dt show ?thesis by blast
qed

lemma singleHokuyo_None:
  assumes "singleHokuyo e self msg data w = (None, data', w')"
  shows "\<exists>dir cloud pl loads. path_save self = Some dir
           \<and> (project_scan e (msg_text msg) = Inr cloud \<and> pl = msg_text msg \<and> loads = [EvLoad pl]
              \<or> (\<exists>ex. project_scan e (msg_text msg) = Inl ex) \<and> pl = py_replace ''nan'' ''60'' (msg_text msg)
                 \<and> project_scan e pl = Inr cloud \<and> loads = [EvLoad (msg_text msg), EvLoad pl])
           \<and> (\<forall>p\<in>set (read_points cloud [''x'', ''y'', ''z''] True). length p = 3)
           \<and> read_points cloud [''x'', ''y'', ''z''] True \<noteq> []"
  using assms
  by (auto simp: singleHokuyo_def loadHokuyo_def Let_def hokuyo_points_eq
           split: sum.splits prod.splits if_splits dest!: savePLY_None)

lemma frame_doneI:
  assumes "path_save self = Some dir" and "list_all is_load loads" and "pts \<noteq> []"
    and "r = (None, data @ [fn], write_file (path_join dir fn) (PLY pts ch) (w\<lparr>trace := T\<rparr>))"
    and "T = trace w @ loads @ [EvAppend fn]"
    and "r = (None, data', w')"
  shows "\<exists>dir loads pts ch. path_save self = Some dir \<and> pts \<noteq> [] \<and> list_all is_load loads
           \<and> data' = data @ [fn]
           \<and> trace w' = trace w @ loads @ [EvAppend fn, EvWrite (path_join dir fn)]
           \<and> files w' = (files w)(path_join dir fn \<mapsto> PLY pts ch)"
proof -
  from assms(4,6) have "data' = data @ [fn]"
    and "w' = write_file (path_join dir fn) (PLY pts ch) (w\<lparr>trace := T\<rparr>)"
    by simp_all
  with assms(1,2,3,5) show ?thesis
    by (intro exI [of _ dir] exI [of _ loads] exI [of _ pts] exI [of _ ch])
       (simp add: write_file_def)
qed

lemma singleOuster_success:
  assumes "singleOuster e self msg data w = (None, data', w')"
  shows "\<exists>dir loads pts ch. path_save self = Some dir \<and> pts \<noteq> [] \<and> list_all is_load loads
           \<and> data' = data @ [frame_name (msg_to_timestamp e (PyMsg msg))]
           \<and> trace w' = trace w @ loads @ [EvAppend (frame_name (msg_to_timestamp e (PyMsg msg))),
                 EvWrite (path_join dir (frame_name (msg_to_timestamp e (PyMsg msg))))]
           \<and> files w' = (files w)(path_join dir (frame_name (msg_to_timestamp e (PyMsg msg))) \<mapsto> PLY pts ch)"
proof -
  from singleOuster_None [OF assms] obtain dir ps where
    d: "path_save self = Some dir" and n: "ps \<noteq> []" and
    r: "read_points_list msg [''x'', ''y'', ''z'', ''intensity'', ''t'', ''ring''] True = Inr ps"
    by blast
  from n have n': "map (take 3) ps \<noteq> []" by simp
  show ?thesis
    by (rule frame_doneI [OF d _ n' singleOuster_eq [OF d r n] _ assms, of "[]"]) simp_all
qed

lemma singleVelodyne_success:
  assumes "singleVelodyne e self msg data w = (None, data', w')"
  shows "\<exists>dir loads pts ch. path_save self = Some dir \<and> pts \<noteq> [] \<and> list_all is_load loads
           \<and> data' = data @ [frame_name (msg_to_timestamp e (PyMsg msg))]
           \<and> trace w' = trace w @ loads @ [EvAppend (frame_name (msg_to_timestamp e (PyMsg msg))),
                 EvWrite (path_join dir (frame_name (msg_to_timestamp e (PyMsg msg))))]
           \<and> files w' = (files w)(path_join dir (frame_name (msg_to_timestamp e (PyMsg msg))) \<mapsto> PLY pts ch)"
proof -
  let ?fn = "frame_name (msg_to_timestamp e (PyMsg msg))"
  from singleVelodyne_None [OF assms] obtain dir xyz_s irt_s where
    d: "path_save self = Some dir" and n: "xyz_s \<noteq> []" and
    w': "w' = write_file (path_join dir ?fn) (PLY xyz_s (if np_any irt_s then Some irt_s else None))
                 (w\<lparr>trace := trace w @ [EvAppend ?fn]\<rparr>)" and
    dt: "data' = data @ [?fn]"
    by blast
  have eq: "singleVelodyne e self msg data w = (None, data @ [?fn],
      write_file (path_join dir ?fn) (PLY xyz_s (if np_any irt_s then Some irt_s else None))
                 (w\<lparr>trace := trace w @ [EvAppend ?fn]\<rparr>))"
    unfolding assms w' dt by simp
  show ?thesis
    by (rule frame_doneI [OF d _ n eq _ assms, of "[]"]) simp_all
qed

lemma singleHokuyo_success:
  assumes "singleHokuyo e self msg data w = (None, data', w')"
  shows "\<exists>dir loads pts ch. path_save self = Some dir \<and> pts \<noteq> [] \<and> list_all is_load loads
           \<and> data' = data @ [frame_name (msg_to_timestamp e (PyStr (hokuyo_payload e msg)))]
           \<and> trace w' = trace w @ loads @ [EvAppend (frame_name (msg_to_timestamp e (PyStr (hokuyo_payload e msg)))),
                 EvWrite (path_join dir (frame_name (msg_to_timestamp e (PyStr (hokuyo_payload e msg)))))]
           \<and> files w' = (files w)(path_join dir (frame_name (msg_to_timestamp e (PyStr (hokuyo_payload e msg)))) \<mapsto> PLY pts ch)"
proof -
  from singleHokuyo_None [OF assms] obtain dir cloud pl loads ex where
    d: "path_save self = Some dir" and
    c: "project_scan e (msg_text msg) = Inr cloud \<and> pl = msg_text msg \<and> loads = [EvLoad pl]
        \<or> project_scan e (msg_text msg) = Inl ex \<and> pl = py_replace ''nan'' ''60'' (msg_text msg)
           \<and> project_scan e pl = Inr cloud \<and> loads = [EvLoad (msg_text msg), EvLoad pl]" and
    l: "\<forall>p\<in>set (read_points cloud [''x'', ''y'', ''z''] True). length p = 3" and
    n: "read_points cloud [''x'', ''y'', ''z''] True \<noteq> []"
    by blast
  from c have ld: "list_all is_load loads" by (auto simp: is_load_def)
  from c have pl: "pl = hokuyo_payload e msg" by (auto simp: hokuyo_payload_def)
  show ?thesis
    unfolding pl [symmetric]
    by (rule frame_doneI [OF d ld n singleHokuyo_eq [OF d c l n] _ assms]) simp
qed

lemma dispatch_success:
  assumes "dispatch e self msg data w = (None, data', w')"
    and "sensor self \<in> set Lidar_list"
  shows "\<exists>dir loads pts ch. path_save self = Some dir \<and> pts \<noteq> [] \<and> list_all is_load loads
           \<and> data' = data @ [frame_file e self msg]
           \<and> trace w' = trace w @ loads @ [EvAppend (frame_file e self msg),
                 EvWrite (path_join dir (frame_file e self msg))]
           \<and> files w' = (files w)(path_join dir (frame_file e self msg) \<mapsto> PLY pts ch)"
proof -
  from assms(2) consider "sensor self = HOKUYO" | "sensor self \<noteq> HOKUYO" "sensor self = OUSTER"
    | "sensor self \<noteq> HOKUYO" "sensor self \<noteq> OUSTER" "sensor self = VELODYNE"
    by (auto simp: Lidar_list_def HOKUYO_def OUSTER_def VELODYNE_def)
  then show ?thesis
  proof cases
    case 1
    with assms(1) have "singleHokuyo e self msg data w = (None, data', w')"
      by (simp add: dispatch_def)
    from singleHokuyo_success [OF this] 1 show ?thesis by (simp add: frame_file_def)
  next
    case 2
    with assms(1) have "singleOuster e self msg data w = (None, data', w')"
      by (simp add: dispatch_def)
    from singleOuster_success [OF this] 2 show ?thesis by (simp add: frame_file_def)
  next
    case 3
    with assms(1) have "singleVelodyne e self msg data w = (None, data', w')"
      by (simp add: dispatch_def)
    from singleVelodyne_success [OF this] 3 show ?thesis by (simp add: frame_file_def)
  qed
qed

lemma singleVelodyne_unset_fails:
  assumes "\<not> available_point_time self"
  shows "fst (singleVelodyne e self msg data w) \<noteq> None"
proof
  assume "fst (singleVelodyne e self msg data w) = None"
  then have run: "singleVelodyne e self msg data w =
      (None, fst (snd (singleVelodyne e self msg data w)), snd (snd (singleVelodyne e self msg data w)))"
    by (simp add: prod_eq_iff)
  from singleVelodyne_None [OF run] assms obtain ps xyz_s irt_s where
    r: "read_points_list msg [''x'', ''y'', ''z'', ''intensity'', ''ring''] True = Inr ps" and
    v: "velodyne_points e False ps [] [] = Inr (xyz_s, irt_s)" and n: "xyz_s \<noteq> []"
    by auto
  from read_points_list_Inr [OF r] have len: "\<forall>p\<in>set ps. length p = 5" by auto
  show False
  proof (cases "ps = []")
    case True
    with v n show False by simp
  next
    case False
    from velodyne_points_False_five [OF len False, of e "[]" "[]"] v show False by simp
  qed
qed

lemma appended_append: "appended (xs @ ys) = appended xs @ appended ys"
  by (simp add: appended_def)

lemma written_append: "written (xs @ ys) = written xs @ written ys"
  by (simp add: written_def)

lemma appended_loads: "list_all is_load loads \<Longrightarrow> appended loads = []"
  by (induction loads) (auto simp: appended_def is_load_def split: event.splits)

lemma written_loads: "list_all is_load loads \<Longrightarrow> written loads = []"
  by (induction loads) (auto simp: written_def is_load_def split: event.splits)

lemma extract_msgs_append:
  "extract_msgs e self (xs @ ys) data w =
     (case extract_msgs e self xs data w of
        (Some ex, data', w') \<Rightarrow> (Some ex, data', w')
      | (None, data', w') \<Rightarrow> extract_msgs e self ys data' w')"
  by (induction xs arbitrary: data w) (auto split: prod.splits option.splits)

lemma extract_bags_concat:
  "extract_bags e self bs data w = extract_msgs e self (topic_msgs self bs) data w"
  by (induction bs arbitrary: data w)
     (auto simp: topic_msgs_def extract_msgs_append split: prod.splits option.splits)

lemma extract_msgs_success:
  assumes "extract_msgs e self msgs data w = (None, data', w')"
    and "sensor self \<in> set Lidar_list" and "path_save self = Some dir"
  shows "data' = data @ map (frame_file e self) msgs
       \<and> appended (trace w') = appended (trace w) @ map (frame_file e self) msgs
       \<and> written (trace w') = written (trace w) @ map (\<lambda>m. path_join dir (frame_file e self m)) msgs
       \<and> (\<forall>m\<in>set msgs. is_frame w' (path_join dir (frame_file e self m)))
       \<and> (\<forall>p. is_frame w p \<longrightarrow> is_frame w' p)"
  using assms(1)
proof (induction msgs arbitrary: data w)
  case Nil
  then show ?case by simp
next
  case (Cons m ms)
  let ?fn = "frame_file e self m"
  from Cons.prems obtain d1 w1 where
    step: "dispatch e self m data w = (None, d1, w1)" and
    rest: "extract_msgs e self ms d1 w1 = (None, data', w')"
    by (auto split: prod.splits option.splits)
  from dispatch_success [OF step assms(2)] obtain dir' loads pts ch where
    dir': "path_save self = Some dir'" and ne: "pts \<noteq> []" and
    d1: "d1 = data @ [?fn]" and ld: "list_all is_load loads" and
    tr': "trace w1 = trace w @ loads @ [EvAppend ?fn, EvWrite (path_join dir' ?fn)]" and
    fl': "files w1 = (files w)(path_join dir' ?fn \<mapsto> PLY pts ch)"
    by blast
  from dir' assms(3) have dd: "dir' = dir" by simp
  note tr = tr' [unfolded dd] and fl = fl' [unfolded dd]
  from Cons.IH [OF rest] have
    n: "data' = d1 @ map (frame_file e self) ms"
       "appended (trace w') = appended (trace w1) @ map (frame_file e self) ms"
       "written (trace w') = written (trace w1) @ map (\<lambda>m. path_join dir (frame_file e self m)) ms"
       "\<forall>m\<in>set ms. is_frame w' (path_join dir (frame_file e self m))"
       "\<forall>p. is_frame w1 p \<longrightarrow> is_frame w' p"
    by blast+
  have a1: "appended (trace w1) = appended (trace w) @ [?fn]"
    by (simp add: tr appended_append appended_loads [OF ld]) (simp add: appended_def)
  have a2: "written (trace w1) = written (trace w) @ [path_join dir ?fn]"
    by (simp add: tr written_append written_loads [OF ld]) (simp add: written_def)
  have p1: "is_frame w1 (path_join dir ?fn)"
    using ne by (simp add: is_frame_def fl)
  have p2: "\<forall>p. is_frame w p \<longrightarrow> is_frame w1 p"
    using ne by (simp add: is_frame_def fl)
  from n d1 a1 a2 p1 p2 show ?case by auto
qed

lemma savePLY_fst: "fst (savePLY self nm pts ch w) = fst (savePLY self nm pts ch w0)"
  by (simp add: savePLY_def Let_def split: option.splits sum.splits)

lemma singleOuster_indep:
  "fst (singleOuster e self m data w) = fst (singleOuster e self m [] w0)
   \<and> fst (snd (singleOuster e self m data w)) = data @ fst (snd (singleOuster e self m [] w0))"
proof (cases "read_points_list m [''x'', ''y'', ''z'', ''intensity'', ''t'', ''ring''] True")
  case (Inl ex)
  then show ?thesis by (simp add: singleOuster_def Let_def)
next
  case r: (Inr ps)
  show ?thesis
  proof (cases "ouster_points ps [] []")
    case (Inl ex)
    with r show ?thesis by (simp add: singleOuster_def Let_def)
  next
    case (Inr pr)
    with r show ?thesis
      by (cases pr) (simp add: singleOuster_def Let_def case_prod_beta, rule savePLY_fst)
  qed
qed

lemma singleVelodyne_indep:
  "fst (singleVelodyne e self m data w) = fst (singleVelodyne e self m [] w0)
   \<and> fst (snd (singleVelodyne e self m data w)) = data @ fst (snd (singleVelodyne e self m [] w0))"
proof (cases "read_points_list m [''x'', ''y'', ''z'', ''intensity'', ''ring''] True")
  case (Inl ex)
  then show ?thesis by (simp add: singleVelodyne_def Let_def)
next
  case r: (Inr ps)
  show ?thesis
  proof (cases "velodyne_points e (available_point_time self) ps [] []")
    case (Inl ex)
    with r show ?thesis by (simp add: singleVelodyne_def Let_def)
  next
    case (Inr pr)
    with r show ?thesis
      by (cases pr) (simp add: singleVelodyne_def Let_def case_prod_beta, rule savePLY_fst)
  qed
qed

lemma hokuyo_tail_indep:
  "fst (case hokuyo_points ps [] of
          Inl ex \<Rightarrow> (Some ex, d1, w1)
        | Inr xyz_s \<Rightarrow> (let (r', w'') = savePLY self fn xyz_s [] w1 in (r', d1, w''))) =
   fst (case hokuyo_points ps [] of
          Inl ex \<Rightarrow> (Some ex, d2, w2)
        | Inr xyz_s \<Rightarrow> (let (r', w'') = savePLY self fn xyz_s [] w2 in (r', d2, w'')))"
  by (cases "hokuyo_points ps []") (simp_all add: case_prod_beta savePLY_fst [of _ _ _ _ w1 w2])

lemma hokuyo_tail_data:
  "fst (snd (case hokuyo_points ps [] of
          Inl ex \<Rightarrow> (Some ex, d1, w1)
        | Inr xyz_s \<Rightarrow> (let (r', w'') = savePLY self fn xyz_s [] w1 in (r', d1, w'')))) = d1"
  by (cases "hokuyo_points ps []") (simp_all add: case_prod_beta)

lemma singleHokuyo_indep:
  "fst (singleHokuyo e self m data w) = fst (singleHokuyo e self m [] w0)
   \<and> fst (snd (singleHokuyo e self m data w)) = data @ fst (snd (singleHokuyo e self m [] w0))"
proof (cases "project_scan e (msg_text m)")
  case (Inr cloud)
  then show ?thesis
    by (simp add: singleHokuyo_def loadHokuyo_def Let_def hokuyo_tail_data)
       (rule hokuyo_tail_indep)
next
  case l1: (Inl ex1)
  show ?thesis
  proof (cases "project_scan e (py_replace ''nan'' ''60'' (msg_text m))")
    case (Inl ex2)
    with l1 show ?thesis by (simp add: singleHokuyo_def loadHokuyo_def Let_def)
  next
    case (Inr cloud)
    with l1 show ?thesis
      by (simp add: singleHokuyo_def loadHokuyo_def Let_def hokuyo_tail_data)
         (rule hokuyo_tail_indep)
  qed
qed

lemma dispatch_indep:
  "fst (dispatch e self m data w) = fst (dispatch e self m [] w0)
   \<and> fst (snd (dispatch e self m data w)) = data @ fst (snd (dispatch e self m [] w0))"
  using singleHokuyo_indep [of e self m data w w0] singleOuster_indep [of e self m data w w0]
    singleVelodyne_indep [of e self m data w w0]
  by (simp add: dispatch_def)

lemma dispatch_cong:
  assumes "sensor s1 = sensor s2" "available_point_time s1 = available_point_time s2"
    "path_save s1 = path_save s2"
  shows "dispatch e s1 m data w = dispatch e s2 m data w"
proof -
  from assms(3) have sp: "savePLY s1 = savePLY s2"
    by (intro ext) (simp add: savePLY_def)
  show ?thesis
    unfolding dispatch_def singleHokuyo_def singleOuster_def singleVelodyne_def sp assms(1,2)
    by (rule refl)
qed

lemma extract_msgs_cong:
  assumes "sensor s1 = sensor s2" "available_point_time s1 = available_point_time s2"
    "path_save s1 = path_save s2"
  shows "extract_msgs e s1 ms data w = extract_msgs e s2 ms data w"
  by (induction ms arbitrary: data w)
     (auto simp: dispatch_cong [OF assms] split: prod.splits option.splits)

lemma extract_msgs_None:
  "fst (extract_msgs e self ms data w) = None \<longleftrightarrow> (\<forall>m\<in>set ms. decodes e self m)"
proof (induction ms arbitrary: data w)
  case Nil
  show ?case by simp
next
  case (Cons m ms)
  obtain r d1 w1 where step: "dispatch e self m data w = (r, d1, w1)"
    by (cases "dispatch e self m data w") auto
  from dispatch_indep [of e self m data w w_empty] step
  have r: "r = fst (dispatch e self m [] w_empty)" by simp
  show ?case
  proof (cases r)
    case None
    with r have "decodes e self m" by (simp add: decodes_def)
    with None step Cons.IH [of d1 w1] show ?thesis by simp
  next
    case (Some ex)
    with r have "fst (dispatch e self m [] w_empty) = Some ex" by simp
    then have "\<not> decodes e self m" by (simp add: decodes_def)
    with Some step show ?thesis by simp
  qed
qed

lemma mset_map_cong: "mset xs = mset ys \<Longrightarrow> mset (map f xs) = mset (map f ys)"
  by (metis mset_map)

lemma sort_mset_cong: "mset xs = mset ys \<Longrightarrow> sort xs = sort (ys :: 'a::linorder list)"
  by (rule properties_for_sort) simp_all

lemma isAvailable_iff: "isAvailable self \<longleftrightarrow> topic_msgs self (bags self) \<noteq> []"
  by (auto simp: isAvailable_def topic_msgs_def list_ex_iff)

lemma saveCSV_ready:
  "path_save self = Some dir \<Longrightarrow>
   saveCSV self data w =
     (None, write_file (path_join dir ''data.csv'') (Text (savetxt ''# '' CLOUD_HEADER data)) w)"
  by (simp add: saveCSV_def Let_def)

lemma extract_lidar_available:
  assumes "isAvailable self"
  shows "extract_lidar e self w =
     (case extract_msgs e (initialize e self) (topic_msgs self (bags self)) [] w of
        (Some ex, data, w') \<Rightarrow> (Some ex, w')
      | (None, data, w') \<Rightarrow>
          (None, write_file (path_join (getPathSave e self) ''data.csv'')
                   (Text (savetxt ''# '' CLOUD_HEADER (sort data))) w'))"
proof -
  have ps: "path_save (initialize e self) = Some (getPathSave e self)"
    by (simp add: initialize_def)
  have tm: "topic_msgs (initialize e self) (bags (initialize e self)) = topic_msgs self (bags self)"
    by (simp add: initialize_def topic_msgs_def)
  show ?thesis
    using assms
    by (simp add: extract_lidar_def Let_def extract_bags_concat tm saveCSV_ready [OF ps]
        split: prod.splits option.splits)
qed

lemma frame_file_initialize: "frame_file e (initialize e self) = frame_file e self"
  by (intro ext) (simp add: frame_file_def initialize_def)

lemma extract_lidar_manifest:
  assumes "isAvailable self" and "sensor self \<in> set Lidar_list"
    and "\<forall>m\<in>set (topic_msgs self (bags self)). decodes e (initialize e self) m"
  shows "\<exists>w1. extract_lidar e self w = (None, w1)
           \<and> files w1 (path_join (getPathSave e self) ''data.csv'') =
               Some (Text (savetxt ''# '' CLOUD_HEADER
                 (sort (map (frame_file e self) (topic_msgs self (bags self))))))"
proof -
  let ?s = "initialize e self" and ?ms = "topic_msgs self (bags self)"
  obtain r data wa where run: "extract_msgs e ?s ?ms [] w = (r, data, wa)"
    by (cases "extract_msgs e ?s ?ms [] w") auto
  from extract_msgs_None [of e ?s ?ms "[]" w] assms(3) run have r: "r = None" by simp
  have s: "sensor ?s \<in> set Lidar_list" "path_save ?s = Some (getPathSave e self)"
    using assms(2) by (simp_all add: initialize_def)
  from extract_msgs_success [OF run [unfolded r] s]
  have d: "data = map (frame_file e self) ?ms" by (simp add: frame_file_initialize)
  show ?thesis
    by (simp add: extract_lidar_available [OF assms(1)] run r d files_write_file)
qed

lemma extract_lidar_None:
  assumes "isAvailable self" and "extract_lidar e self w = (None, w1)"
  shows "\<forall>m\<in>set (topic_msgs self (bags self)). decodes e (initialize e self) m"
proof -
  let ?s = "initialize e self" and ?ms = "topic_msgs self (bags self)"
  from assms have "fst (extract_msgs e ?s ?ms [] w) = None"
    by (auto simp: extract_lidar_available [OF assms(1)] split: prod.splits option.splits)
  then show ?thesis by (simp add: extract_msgs_None)
qed

lemma decodes_cong:
  assumes "sensor s1 = sensor s2" "available_point_time s1 = available_point_time s2"
    "path_save s1 = path_save s2"
  shows "decodes e s1 = decodes e s2"
  by (intro ext) (simp add: decodes_def dispatch_cong [OF assms])

lemma frame_file_cong: "sensor s1 = sensor s2 \<Longrightarrow> frame_file e s1 = frame_file e s2"
  by (intro ext) (simp add: frame_file_def)

lemma replace_nan_unfold:
  "py_replace ''nan'' ''60'' s =
     (if s = [] then []
      else if take 3 s = ''nan'' then ''60'' @ py_replace ''nan'' ''60'' (drop 3 s)
      else hd s # py_replace ''nan'' ''60'' (tl s))"
proof -
  have l: "length ''nan'' = 3" by simp
  show ?thesis
    by (subst py_replace.simps, simp only: l) simp
qed

lemma replace_nan_Nil: "py_replace ''nan'' ''60'' [] = []"
  by (subst replace_nan_unfold) simp

lemma replace_nan_hit:
  "take 3 s = ''nan'' \<Longrightarrow> py_replace ''nan'' ''60'' s = ''60'' @ py_replace ''nan'' ''60'' (drop 3 s)"
  by (subst replace_nan_unfold) auto

lemma replace_nan_miss:
  "take 3 (c # s) \<noteq> ''nan'' \<Longrightarrow> py_replace ''nan'' ''60'' (c # s) = c # py_replace ''nan'' ''60'' s"
  by (subst replace_nan_unfold) simp

lemma replace_nan_head:
  assumes "py_replace ''nan'' ''60'' s = c # t" and "c \<noteq> CHR ''6''"
  shows "\<exists>s'. s = c # s' \<and> t = py_replace ''nan'' ''60'' s'"
proof (cases s)
  case Nil
  with assms show ?thesis by (simp add: replace_nan_Nil)
next
  case (Cons a s')
  show ?thesis
  proof (cases "take 3 s = ''nan''")
    case True
    from replace_nan_hit [OF True] assms show ?thesis by simp
  next
    case False
    with Cons assms replace_nan_miss [of a s'] show ?thesis by simp
  qed
qed

lemma replace_nan_clean: "\<not> sublist ''nan'' (py_replace ''nan'' ''60'' s)"
proof (induction s rule: length_induct)
  case (1 s)
  show ?case
  proof (cases s)
    case Nil
    then show ?thesis by (simp add: replace_nan_Nil)
  next
    case (Cons c s')
    show ?thesis
    proof (cases "take 3 s = ''nan''")
      case True
      have "length (drop 3 s) < length s" using Cons by simp
      with 1 have "\<not> sublist ''nan'' (py_replace ''nan'' ''60'' (drop 3 s))" by blast
      then show ?thesis
        by (simp add: replace_nan_hit [OF True] sublist_Cons_right)
    next
      case False
      with Cons have eq: "py_replace ''nan'' ''60'' s = c # py_replace ''nan'' ''60'' s'"
        by (simp add: replace_nan_miss)
      from 1 Cons have ih: "\<not> sublist ''nan'' (py_replace ''nan'' ''60'' s')" by simp
      show ?thesis
      proof
        assume "sublist ''nan'' (py_replace ''nan'' ''60'' s)"
        with eq have "sublist ''nan'' (c # py_replace ''nan'' ''60'' s')"
          by simp
        then have "prefix ''nan'' (c # py_replace ''nan'' ''60'' s')
            \<or> sublist ''nan'' (py_replace ''nan'' ''60'' s')"
          by (simp only: sublist_Cons_right)
        with ih have "prefix ''nan'' (c # py_replace ''nan'' ''60'' s')"
          by blast
        then have "CHR ''n'' = c \<and> prefix ''an'' (py_replace ''nan'' ''60'' s')"
          unfolding Cons_prefix_Cons .
        then have c: "c = CHR ''n''" and p: "prefix ''an'' (py_replace ''nan'' ''60'' s')"
          by blast+
        from p obtain t where t: "py_replace ''nan'' ''60'' s' = CHR ''a'' # CHR ''n'' # t"
          by (auto elim: prefixE)
        from replace_nan_head [OF t] obtain s2 where
          s2: "s' = CHR ''a'' # s2" "CHR ''n'' # t = py_replace ''nan'' ''60'' s2" by auto
        from replace_nan_head [OF s2(2) [symmetric] ] obtain s3 where
          s3: "s2 = CHR ''n'' # s3" by auto
        from Cons c s2 s3 have "take 3 s = ''nan''" by simp
        with False show False ..
      qed
    qed
  qed
qed

lemma not_load_simps: "\<not> is_load (EvAppend f)" "\<not> is_load (EvWrite p)" "is_load (EvLoad s)"
  by (simp_all add: is_load_def)






lemma replace_nan_example: "py_replace ''nan'' ''60'' ''nan'' = ''60''"
  by (simp add: replace_nan_hit replace_nan_Nil)

lemma replace_bad_example: "py_replace ''nan'' ''60'' ''bad'' = ''bad''"
  by (simp add: replace_nan_miss replace_nan_Nil)


lemma single_at_most_one:
  "\<exists>ns. fst (snd (singleHokuyo e self m data w)) = data @ ns \<and> length ns \<le> 1"
  "\<exists>ns. fst (snd (singleOuster e self m data w)) = data @ ns \<and> length ns \<le> 1"
  "\<exists>ns. fst (snd (singleVelodyne e self m data w)) = data @ ns \<and> length ns \<le> 1"
  by (auto simp: singleHokuyo_def singleOuster_def singleVelodyne_def loadHokuyo_def Let_def
      split: sum.splits prod.splits)

lemma dispatch_at_most_one:
  "\<exists>ns. fst (snd (dispatch e self m data w)) = data @ ns \<and> length ns \<le> 1"
  using single_at_most_one [of e self m data w] by (simp add: dispatch_def)

lemma savePLY_files_cong:
  "files w1 = files w2 \<Longrightarrow>
   files (snd (savePLY self nm pts ch w1)) = files (snd (savePLY self nm pts ch w2))"
  by (simp add: savePLY_def Let_def write_file_def split: option.splits sum.splits)

lemma savePLY_trace:
  "\<exists>rest. trace (snd (savePLY self nm pts ch w)) = trace w @ rest \<and> \<not> list_ex is_load rest"
  by (simp add: savePLY_def Let_def write_file_def not_load_simps split: option.splits sum.splits)

lemma hokuyo_after_load:
  assumes "project_scan e pl = Inr cloud"
    and "project_scan e (msg_text msg) = Inr cloud' \<and> pl = msg_text msg \<and> T = trace w @ [EvLoad pl]
       \<or> project_scan e (msg_text msg) = Inl ex \<and> pl = py_replace ''nan'' ''60'' (msg_text msg)
          \<and> T = trace w @ [EvLoad (msg_text msg), EvLoad pl]"
  shows "singleHokuyo e self msg data w =
     (case hokuyo_points (read_points cloud [''x'', ''y'', ''z''] True) [] of
        Inl ex \<Rightarrow> (Some ex, data @ [frame_name (msg_to_timestamp e (PyStr pl))],
                    w\<lparr>trace := T @ [EvAppend (frame_name (msg_to_timestamp e (PyStr pl)))]\<rparr>)
      | Inr xyz_s \<Rightarrow>
          (fst (savePLY self (frame_name (msg_to_timestamp e (PyStr pl))) xyz_s []
                  (w\<lparr>trace := T @ [EvAppend (frame_name (msg_to_timestamp e (PyStr pl)))]\<rparr>)),
           data @ [frame_name (msg_to_timestamp e (PyStr pl))],
           snd (savePLY self (frame_name (msg_to_timestamp e (PyStr pl))) xyz_s []
                  (w\<lparr>trace := T @ [EvAppend (frame_name (msg_to_timestamp e (PyStr pl)))]\<rparr>))))"
  using assms
  by (auto simp: singleHokuyo_def loadHokuyo_def Let_def case_prod_beta split: sum.splits)

section \<open>The example inputs, evaluated\<close>

lemmas ex_defs = ex_env_def ex_msg_def ex_void_msg_def ex_self_def ex_cloud_def ex_dim_cloud_def
  ex_void_cloud_def ex_timed_cloud_def w_empty_def

lemma ex_names: "str_int 4 = ''4''" "str_int 2 = ''2''" "str_int 1 = ''1''"
  "path_join ''out'' ''4.ply'' = ''out/4.ply''"
  "path_join ''out'' ''2.ply'' = ''out/2.ply''" "path_join ''out'' ''1.ply'' = ''out/1.ply''"
  "path_join ''out'' ''data.csv'' = ''out/data.csv''"
  by (simp_all add: str_int_def str_nat.simps path_join_def)

lemma ex_sort: "sort [''2.ply'', ''1.ply''] = [''1.ply'', ''2.ply'']"
  by code_simp

lemma ex_read:
  "read_points ex_cloud [''x'', ''y'', ''z'', ''intensity'', ''t'', ''ring''] True =
     [ [Num 1, Num 2, Num 3, Num 4, Num 5, Num 6] ]"
  "read_points ex_cloud [''x'', ''y'', ''z'', ''intensity'', ''ring''] True =
     [ [Num 1, Num 2, Num 3, Num 4, Num 6] ]"
  "read_points ex_cloud [''x'', ''y'', ''z''] True = [ [Num 1, Num 2, Num 3] ]"
  "read_points ex_dim_cloud [''x'', ''y'', ''z'', ''intensity'', ''t'', ''ring''] True =
     [ [Num 1, Num 2, Num 3, Num 4, Num 5, Num 6] ]"
  "read_points ex_void_cloud [''x'', ''y'', ''z'', ''intensity'', ''t'', ''ring''] True = []"
  "read_points ex_void_cloud [''x'', ''y'', ''z''] True = []"
  "read_points ex_timed_cloud [''x'', ''y'', ''z'', ''intensity'', ''ring''] True =
     [ [Num 1, Num 2, Num 3, Num 4, Num 5] ]"
  by (simp_all add: read_points_def select_fields_def ex_cloud_def ex_dim_cloud_def
      ex_void_cloud_def ex_timed_cloud_def)

lemma ex_read_list:
  "msg_cloud m = Some ex_cloud \<Longrightarrow>
   read_points_list m [''x'', ''y'', ''z'', ''intensity'', ''t'', ''ring''] True =
     Inr [ [Num 1, Num 2, Num 3, Num 4, Num 5, Num 6] ]"
  "msg_cloud m = Some ex_cloud \<Longrightarrow>
   read_points_list m [''x'', ''y'', ''z'', ''intensity'', ''ring''] True =
     Inr [ [Num 1, Num 2, Num 3, Num 4, Num 6] ]"
  "msg_cloud m = Some ex_dim_cloud \<Longrightarrow>
   read_points_list m [''x'', ''y'', ''z'', ''intensity'', ''t'', ''ring''] True =
     Inr [ [Num 1, Num 2, Num 3, Num 4, Num 5, Num 6] ]"
  "msg_cloud m = Some ex_void_cloud \<Longrightarrow>
   read_points_list m [''x'', ''y'', ''z'', ''intensity'', ''t'', ''ring''] True = Inr []"
  "msg_cloud m = Some ex_timed_cloud \<Longrightarrow>
   read_points_list m [''x'', ''y'', ''z'', ''intensity'', ''ring''] True =
     Inr [ [Num 1, Num 2, Num 3, Num 4, Num 5] ]"
  by (simp_all add: read_points_list_def ex_read)

lemma ex_ouster_run:
  assumes "msg_cloud m = Some ex_cloud \<or> msg_cloud m = Some ex_dim_cloud"
  shows "singleOuster ex_env (ex_self ''ouster'' apt) m data w =
     (None, data @ [frame_name (int (length (msg_text m)))],
      write_file (path_join ''out'' (frame_name (int (length (msg_text m)))))
        (PLY [ [Num 1, Num 2, Num 3] ] (Some [ [Num 4, Num 6, Num 5] ]))
        (w\<lparr>trace := trace w @ [EvAppend (frame_name (int (length (msg_text m))))]\<rparr>))"
proof -
  have d: "path_save (ex_self ''ouster'' apt) = Some ''out''" by (simp add: ex_self_def)
  from assms have r: "read_points_list m [''x'', ''y'', ''z'', ''intensity'', ''t'', ''ring''] True =
      Inr [ [Num 1, Num 2, Num 3, Num 4, Num 5, Num 6] ]"
    by (auto simp: ex_read_list)
  have t: "msg_to_timestamp ex_env (PyMsg m) = int (length (msg_text m))"
    by (simp add: ex_env_def)
  show ?thesis
    using singleOuster_eq [OF d r, of ex_env data w] by (simp add: t np_any_def)
qed

lemma ex_ouster_void_run:
  "singleOuster ex_env (ex_self ''ouster'' apt) ex_void_msg data w =
     (Some (RuntimeError ''Vector3dVector''), data @ [''4.ply''],
      w\<lparr>trace := trace w @ [EvAppend ''4.ply'']\<rparr>)"
proof -
  have r: "read_points_list ex_void_msg [''x'', ''y'', ''z'', ''intensity'', ''t'', ''ring''] True = Inr []"
    by (simp add: ex_read_list ex_void_msg_def)
  have t: "msg_to_timestamp ex_env (PyMsg ex_void_msg) = 4"
    by (simp add: ex_env_def ex_void_msg_def)
  have d: "path_save (ex_self ''ouster'' apt) = Some ''out''" by (simp add: ex_self_def)
  show ?thesis
    by (simp add: singleOuster_def Let_def r t savePLY_empty [OF d] ex_names)
qed

lemma ex_hokuyo_void_run:
  "singleHokuyo ex_env (ex_self ''hokuyo'' apt) ex_void_msg data w =
     (Some (RuntimeError ''Vector3dVector''), data @ [''4.ply''],
      w\<lparr>trace := trace w @ [EvLoad ''void'', EvAppend ''4.ply'']\<rparr>)"
proof -
  have p: "project_scan ex_env ''void'' = Inr ex_void_cloud" by (simp add: ex_env_def)
  have t: "msg_to_timestamp ex_env (PyStr ''void'') = 4" by (simp add: ex_env_def)
  have d: "path_save (ex_self ''hokuyo'' apt) = Some ''out''" by (simp add: ex_self_def)
  have m: "msg_text ex_void_msg = ''void''" by (simp add: ex_void_msg_def)
  show ?thesis
    by (simp add: singleHokuyo_def loadHokuyo_def Let_def m p t ex_read savePLY_empty [OF d] ex_names)
qed

lemma ex_hokuyo_retry_run:
  "singleHokuyo ex_env (ex_self ''hokuyo'' False) (ex_msg ''nan'') data w =
     (None, data @ [''2.ply''],
      write_file ''out/2.ply'' (PLY [ [Num 1, Num 2, Num 3] ] None)
        (w\<lparr>trace := trace w @ [EvLoad ''nan'', EvLoad ''60''] @ [EvAppend ''2.ply'']\<rparr>))"
proof -
  have d: "path_save (ex_self ''hokuyo'' False) = Some ''out''" by (simp add: ex_self_def)
  have c: "project_scan ex_env (msg_text (ex_msg ''nan'')) = Inr ex_cloud \<and> ''60'' = msg_text (ex_msg ''nan'')
        \<and> [EvLoad ''nan'', EvLoad ''60''] = [EvLoad ''60'']
      \<or> project_scan ex_env (msg_text (ex_msg ''nan'')) = Inl (Raised ''parse'')
        \<and> ''60'' = py_replace ''nan'' ''60'' (msg_text (ex_msg ''nan''))
        \<and> project_scan ex_env ''60'' = Inr ex_cloud
        \<and> [EvLoad ''nan'', EvLoad ''60''] = [EvLoad (msg_text (ex_msg ''nan'')), EvLoad ''60'']"
    by (simp add: ex_env_def ex_msg_def replace_nan_example)
  have l: "\<forall>p\<in>set (read_points ex_cloud [''x'', ''y'', ''z''] True). length p = 3"
    by (simp add: ex_read)
  have n: "read_points ex_cloud [''x'', ''y'', ''z''] True \<noteq> []" by (simp add: ex_read)
  have t: "frame_name (msg_to_timestamp ex_env (PyStr ''60'')) = ''2.ply''"
    by (simp add: ex_env_def ex_names)
  show ?thesis
    using singleHokuyo_eq [OF d c l n, of data w] by (simp only: t ex_names ex_read)
qed

lemma ex_bags_run:
  "extract_bags ex_env (ex_self ''ouster'' False) (bags (ex_self ''ouster'' False)) [] w_empty =
     (None, [''2.ply'', ''1.ply''],
      \<lparr>files = [''out/2.ply'' \<mapsto> PLY [ [Num 1, Num 2, Num 3] ] (Some [ [Num 4, Num 6, Num 5] ]),
                ''out/1.ply'' \<mapsto> PLY [ [Num 1, Num 2, Num 3] ] (Some [ [Num 4, Num 6, Num 5] ])],
       trace = [EvAppend ''2.ply'', EvWrite ''out/2.ply'', EvAppend ''1.ply'', EvWrite ''out/1.ply'']\<rparr>)"
proof -
  have s: "sensor (ex_self ''ouster'' False) = ''ouster''" "topic (ex_self ''ouster'' False) = ''/points''"
    "bags (ex_self ''ouster'' False) =
       [ [(''/points'', ex_msg ''bb''), (''/imu'', ex_msg ''i'')], [(''/points'', ex_msg ''a'')] ]"
    by (simp_all add: ex_self_def)
  have c: "\<And>s. msg_cloud (ex_msg s) = Some ex_cloud \<or> msg_cloud (ex_msg s) = Some ex_dim_cloud"
    "\<And>s. msg_text (ex_msg s) = s"
    by (simp_all add: ex_msg_def)
  show ?thesis
    unfolding s
    by (simp add: read_messages_def dispatch_def s HOKUYO_def OUSTER_def ex_ouster_run [OF c(1)] c(2)
        ex_names w_empty_def write_file_def)
qed

lemma ex_dispatch_ouster:
  "dispatch ex_env (ex_self ''ouster'' apt) m data w = singleOuster ex_env (ex_self ''ouster'' apt) m data w"
  by (simp add: dispatch_def ex_self_def HOKUYO_def OUSTER_def)

lemma ex_frame_file:
  "frame_file ex_env (ex_self ''ouster'' apt) (ex_msg ''bb'') = ''2.ply''"
  "frame_file ex_env (ex_self ''ouster'' apt) (ex_msg ''a'') = ''1.ply''"
  by (simp_all add: frame_file_def ex_self_def HOKUYO_def ex_env_def ex_msg_def ex_names)

lemma ex_topic_msgs:
  "topic_msgs (ex_self ''ouster'' False) ex_bags_swapped = [ex_msg ''a'', ex_msg ''bb'']"
  "topic_msgs (ex_self ''ouster'' False) (bags (ex_self ''ouster'' False)) = [ex_msg ''bb'', ex_msg ''a'']"
  by (simp_all add: topic_msgs_def read_messages_def ex_self_def ex_bags_swapped_def)

lemma ex_manifest:
  "savetxt ''# '' CLOUD_HEADER [''1.ply'', ''2.ply''] =
     ''# timestamp [ns]'' @ [CHR 0x0A] @ ''1.ply'' @ [CHR 0x0A] @ ''2.ply'' @ [CHR 0x0A]"
  by (simp add: savetxt_def CLOUD_HEADER_def)



section \<open>The claims\<close>

subsection \<open>Velodyne: the time offset when the point-time flag is unset\<close>

text \<open>
  Claim C1 says that with the point-time flag unset every decoded point gets the time
  offset \<open>round (t * 1e9)\<close> of its raw time \<open>t\<close>, so 2000000 for \<open>t = 0.002\<close>. The
  decoder does not get that far. \<^verbatim>\<open>singleVelodyne\<close> asks \<^verbatim>\<open>read_points_list\<close>
  for the five fields x, y, z, intensity, ring (l.146; the list that also names the time
  field is commented out at l.144), so every tuple it reads has five values, and with the
  flag unset \<^verbatim>\<open>x, y, z, i, r, t_s = pt\<close> (l.165) raises \<^verbatim>\<open>ValueError\<close> on the
  first point: the filename has been appended by then, and no file is written. A message
  without points fails as well, when the empty frame is written. So with the flag unset,
  which is how the constructor leaves it, the decoder fails on every message, and no
  point is ever given a time offset.
\<close>

theorem velodyne_unset_never_decodes:
  assumes "\<not> available_point_time self"
  shows "fst (singleVelodyne e self msg data w) \<noteq> None
       \<and> (\<forall>points. read_points_list msg [''x'', ''y'', ''z'', ''intensity'', ''ring''] True = Inr points
              \<and> points \<noteq> [] \<longrightarrow>
            singleVelodyne e self msg data w =
              (Some (ValueError ''unpack''), data @ [frame_name (msg_to_timestamp e (PyMsg msg))],
               w\<lparr>trace := trace w @ [EvAppend (frame_name (msg_to_timestamp e (PyMsg msg)))]\<rparr>))"
proof (intro conjI allI impI)
  show "fst (singleVelodyne e self msg data w) \<noteq> None"
    by (rule singleVelodyne_unset_fails [OF assms])
next
  fix points
  assume a: "read_points_list msg [''x'', ''y'', ''z'', ''intensity'', ''ring''] True = Inr points
              \<and> points \<noteq> []"
  then have r: "read_points_list msg [''x'', ''y'', ''z'', ''intensity'', ''ring''] True = Inr points"
    and n: "points \<noteq> []" by simp_all
  from read_points_list_Inr [OF r] have "\<forall>p\<in>set points. length p = 5" by auto
  from velodyne_points_False_five [OF this n, of e "[]" "[]"] assms r
  show "singleVelodyne e self msg data w =
              (Some (ValueError ''unpack''), data @ [frame_name (msg_to_timestamp e (PyMsg msg))],
               w\<lparr>trace := trace w @ [EvAppend (frame_name (msg_to_timestamp e (PyMsg msg)))]\<rparr>)"
    by (simp add: singleVelodyne_def Let_def)
qed

text \<open>
  The theorem on a message whose only point reports the time 0.002: the call raises
  after the append, and the world holds no file.
\<close>

theorem velodyne_unset_never_decodes_witness:
  "\<not> available_point_time (ex_self ''velodyne'' False)
   \<and> read_points_list \<lparr>msg_text = ''bb'', msg_cloud = Some ex_timed_cloud\<rparr>
        [''x'', ''y'', ''z'', ''intensity'', ''ring''] True = Inr [ [Num 1, Num 2, Num 3, Num 4, Num 5] ]
   \<and> singleVelodyne ex_env (ex_self ''velodyne'' False)
        \<lparr>msg_text = ''bb'', msg_cloud = Some ex_timed_cloud\<rparr> [] w_empty =
      (Some (ValueError ''unpack''), [''2.ply''], \<lparr>files = Map.empty, trace = [EvAppend ''2.ply'']\<rparr>)"
proof -
  let ?m = "\<lparr>msg_text = ''bb'', msg_cloud = Some ex_timed_cloud\<rparr>"
  have h: "\<not> available_point_time (ex_self ''velodyne'' False)" by (simp add: ex_self_def)
  have r: "read_points_list ?m [''x'', ''y'', ''z'', ''intensity'', ''ring''] True =
      Inr [ [Num 1, Num 2, Num 3, Num 4, Num 5] ]"
    by (simp add: ex_read_list)
  have t: "frame_name (msg_to_timestamp ex_env (PyMsg ?m)) = ''2.ply''"
    by (simp add: ex_env_def ex_names)
  from velodyne_unset_never_decodes [OF h, of ex_env ?m "[]" w_empty] r
  have "singleVelodyne ex_env (ex_self ''velodyne'' False) ?m [] w_empty =
      (Some (ValueError ''unpack''), [''2.ply''], \<lparr>files = Map.empty, trace = [EvAppend ''2.ply'']\<rparr>)"
    unfolding t by (simp add: w_empty_def)
  with h r show ?thesis by simp
qed

subsection \<open>Hokuyo: one retry on the substituted payload\<close>

text \<open>
  Claim C2. When \<^verbatim>\<open>loadHokuyo\<close> fails on the payload of a message,
  \<^verbatim>\<open>singleHokuyo\<close> calls it exactly once more, on the payload in which
  \<^verbatim>\<open>str.replace\<close> has put 60 for the token \<open>nan\<close> (no occurrence of the token
  is left in it), and never again. If that call fails too, its error is the result, and
  neither the accumulator nor the files have changed; if it succeeds, the result, the
  accumulator and the files are those of decoding the substituted payload.
\<close>

theorem hokuyo_retry_once:
  assumes "project_scan e (msg_text msg) = Inl ex1"
  shows "\<exists>r d w' rest.
           singleHokuyo e self msg data w = (r, d, w')
         \<and> trace w' = trace w @ [EvLoad (msg_text msg), EvLoad (py_replace ''nan'' ''60'' (msg_text msg))] @ rest
         \<and> \<not> list_ex is_load rest
         \<and> \<not> sublist ''nan'' (py_replace ''nan'' ''60'' (msg_text msg))
         \<and> (\<forall>ex2. project_scan e (py_replace ''nan'' ''60'' (msg_text msg)) = Inl ex2 \<longrightarrow>
               r = Some ex2 \<and> d = data \<and> rest = [] \<and> files w' = files w)
         \<and> (\<forall>cloud. project_scan e (py_replace ''nan'' ''60'' (msg_text msg)) = Inr cloud \<longrightarrow>
               (r, d, files w') =
                 (let (r2, d2, w2) = singleHokuyo e self (msg\<lparr>msg_text := py_replace ''nan'' ''60'' (msg_text msg)\<rparr>) data w
                  in (r2, d2, files w2)))"
proof -
  let ?m2 = "py_replace ''nan'' ''60'' (msg_text msg)"
  show ?thesis
  proof (cases "project_scan e ?m2")
    case (Inl ex2)
    with assms have "singleHokuyo e self msg data w =
        (Some ex2, data, w\<lparr>trace := trace w @ [EvLoad (msg_text msg), EvLoad ?m2]\<rparr>)"
      by (simp add: singleHokuyo_def loadHokuyo_def Let_def)
    with Inl show ?thesis
      by (simp add: replace_nan_clean)
  next
    case (Inr cloud)
    let ?fn = "frame_name (msg_to_timestamp e (PyStr ?m2))"
    let ?pts = "read_points cloud [''x'', ''y'', ''z''] True"
    let ?T1 = "trace w @ [EvLoad (msg_text msg), EvLoad ?m2]"
    let ?T2 = "trace w @ [EvLoad ?m2]"
    let ?msg2 = "msg\<lparr>msg_text := ?m2\<rparr>"
    have run1: "singleHokuyo e self msg data w =
       (case hokuyo_points ?pts [] of
          Inl ex \<Rightarrow> (Some ex, data @ [?fn], w\<lparr>trace := ?T1 @ [EvAppend ?fn]\<rparr>)
        | Inr xyz_s \<Rightarrow>
            (fst (savePLY self ?fn xyz_s [] (w\<lparr>trace := ?T1 @ [EvAppend ?fn]\<rparr>)),
             data @ [?fn],
             snd (savePLY self ?fn xyz_s [] (w\<lparr>trace := ?T1 @ [EvAppend ?fn]\<rparr>))))"
      using assms by (intro hokuyo_after_load [OF Inr]) simp
    have run2: "singleHokuyo e self ?msg2 data w =
       (case hokuyo_points ?pts [] of
          Inl ex \<Rightarrow> (Some ex, data @ [?fn], w\<lparr>trace := ?T2 @ [EvAppend ?fn]\<rparr>)
        | Inr xyz_s \<Rightarrow>
            (fst (savePLY self ?fn xyz_s [] (w\<lparr>trace := ?T2 @ [EvAppend ?fn]\<rparr>)),
             data @ [?fn],
             snd (savePLY self ?fn xyz_s [] (w\<lparr>trace := ?T2 @ [EvAppend ?fn]\<rparr>))))"
      using Inr hokuyo_after_load [of e ?m2 cloud ?msg2 cloud ?T2 w ex1 self data] by simp
    show ?thesis
    proof (cases "hokuyo_points ?pts []")
      case bad: (Inl ex3)
      from run1 run2 bad Inr show ?thesis
        by (simp add: replace_nan_clean not_load_simps)
    next
      case good: (Inr xyz_s)
      let ?w1 = "w\<lparr>trace := ?T1 @ [EvAppend ?fn]\<rparr>"
      let ?w2 = "w\<lparr>trace := ?T2 @ [EvAppend ?fn]\<rparr>"
      from savePLY_trace [of self ?fn xyz_s "[]" ?w1] obtain rest where
        rest: "trace (snd (savePLY self ?fn xyz_s [] ?w1)) = trace ?w1 @ rest" "\<not> list_ex is_load rest"
        by blast
      have fs: "files (snd (savePLY self ?fn xyz_s [] ?w1)) = files (snd (savePLY self ?fn xyz_s [] ?w2))"
        by (rule savePLY_files_cong) simp
      have ff: "fst (savePLY self ?fn xyz_s [] ?w1) = fst (savePLY self ?fn xyz_s [] ?w2)"
        by (rule savePLY_fst)
      have r1: "singleHokuyo e self msg data w =
          (fst (savePLY self ?fn xyz_s [] ?w1), data @ [?fn], snd (savePLY self ?fn xyz_s [] ?w1))"
        using run1 good by simp
      have r2: "singleHokuyo e self ?msg2 data w =
          (fst (savePLY self ?fn xyz_s [] ?w2), data @ [?fn], snd (savePLY self ?fn xyz_s [] ?w2))"
        using run2 good by simp
      have tr: "trace (snd (savePLY self ?fn xyz_s [] ?w1)) = ?T1 @ (EvAppend ?fn # rest)"
        using rest(1) by simp
      have nl: "\<not> list_ex is_load (EvAppend ?fn # rest)"
        using rest(2) by (simp add: not_load_simps)
      show ?thesis
        unfolding r1 r2
        apply (intro exI [of _ "fst (savePLY self ?fn xyz_s [] ?w1)"] exI [of _ "data @ [?fn]"]
             exI [of _ "snd (savePLY self ?fn xyz_s [] ?w1)"] exI [of _ "EvAppend ?fn # rest"])
        using tr nl Inr fs ff by (simp add: replace_nan_clean)
    qed
  qed
qed

text \<open>
  The theorem on a payload that parses after the substitution and on one that does not.
\<close>

theorem hokuyo_retry_once_witness:
  "project_scan ex_env (msg_text (ex_msg ''nan'')) = Inl (Raised ''parse'')
   \<and> (\<exists>r d w' rest. singleHokuyo ex_env (ex_self ''hokuyo'' False) (ex_msg ''nan'') [] w_empty = (r, d, w')
         \<and> trace w' = trace w_empty @ [EvLoad ''nan'', EvLoad ''60''] @ rest \<and> \<not> list_ex is_load rest)
   \<and> project_scan ex_env (msg_text (ex_msg ''bad'')) = Inl (Raised ''parse'')
   \<and> (\<exists>w'. singleHokuyo ex_env (ex_self ''hokuyo'' False) (ex_msg ''bad'') [] w_empty =
               (Some (Raised ''parse''), [], w')
         \<and> trace w' = [EvLoad ''bad'', EvLoad ''bad''] \<and> files w' = files w_empty)"
proof -
  have h1: "project_scan ex_env (msg_text (ex_msg ''nan'')) = Inl (Raised ''parse'')"
    by (simp add: ex_defs)
  have h2: "project_scan ex_env (msg_text (ex_msg ''bad'')) = Inl (Raised ''parse'')"
    by (simp add: ex_defs)
  have t1: "msg_text (ex_msg ''nan'') = ''nan''" "msg_text (ex_msg ''bad'') = ''bad''"
    by (simp_all add: ex_msg_def)
  have e2: "project_scan ex_env ''bad'' = Inl (Raised ''parse'')" by (simp add: ex_defs)
  have tw: "trace w_empty = []" by (simp add: w_empty_def)
  from hokuyo_retry_once [OF h1, of "ex_self ''hokuyo'' False" "[]" w_empty]
  have c1: "\<exists>r d w' rest. singleHokuyo ex_env (ex_self ''hokuyo'' False) (ex_msg ''nan'') [] w_empty = (r, d, w')
         \<and> trace w' = trace w_empty @ [EvLoad ''nan'', EvLoad ''60''] @ rest \<and> \<not> list_ex is_load rest"
    unfolding t1 replace_nan_example by blast
  from hokuyo_retry_once [OF h2, of "ex_self ''hokuyo'' False" "[]" w_empty]
  have c2: "\<exists>w'. singleHokuyo ex_env (ex_self ''hokuyo'' False) (ex_msg ''bad'') [] w_empty =
               (Some (Raised ''parse''), [], w')
         \<and> trace w' = [EvLoad ''bad'', EvLoad ''bad''] \<and> files w' = files w_empty"
    unfolding t1 replace_bad_example tw using e2 by auto
  from h1 c1 h2 c2 show ?thesis by blast
qed

subsection \<open>The manifest is sorted and does not depend on the processing order\<close>

text \<open>
  Claim C3. When a run succeeds, the manifest it writes is the header line followed by
  one line for each message of the topic, holding the filename of the frame of that
  message, and these lines are in ascending order as strings: the rows are the sorted list
  of the filenames, a rearrangement of the filenames in processing order. A run over any
  rearrangement of the same messages (in any split into segments) succeeds as well and
  writes the same manifest.
\<close>

theorem manifest_sorted_any_order:
  assumes run: "extract_lidar e self w = (None, w1)"
    and avail: "isAvailable self"
    and sens: "sensor self \<in> set Lidar_list"
    and perm: "mset (topic_msgs self bs2) = mset (topic_msgs self (bags self))"
    and path: "getPathSave e (self\<lparr>bags := bs2\<rparr>) = getPathSave e self"
  shows "files w1 (path_join (getPathSave e self) ''data.csv'') =
           Some (Text (savetxt ''# '' CLOUD_HEADER
             (sort (map (frame_file e self) (topic_msgs self (bags self))))))
       \<and> sorted (sort (map (frame_file e self) (topic_msgs self (bags self))))
       \<and> mset (sort (map (frame_file e self) (topic_msgs self (bags self)))) =
           mset (map (frame_file e self) (topic_msgs self (bags self)))
       \<and> (\<exists>w2. extract_lidar e (self\<lparr>bags := bs2\<rparr>) w0 = (None, w2)
             \<and> files w2 (path_join (getPathSave e self) ''data.csv'') =
                 files w1 (path_join (getPathSave e self) ''data.csv''))"
proof -
  let ?s = "initialize e self" and ?ms = "topic_msgs self (bags self)"
  let ?self2 = "self\<lparr>bags := bs2\<rparr>"
  let ?s2 = "initialize e ?self2"
  let ?rows = "sort (map (frame_file e self) ?ms)"
  have ok: "\<forall>m\<in>set ?ms. decodes e ?s m"
    by (rule extract_lidar_None [OF avail run])
  from extract_lidar_manifest [OF avail sens ok, of w] run
  have f1: "files w1 (path_join (getPathSave e self) ''data.csv'') =
              Some (Text (savetxt ''# '' CLOUD_HEADER ?rows))"
    by simp
  have tm2: "topic_msgs ?self2 (bags ?self2) = topic_msgs self bs2"
    by (simp add: topic_msgs_def)
  from avail perm have avail2: "isAvailable ?self2"
    unfolding isAvailable_iff tm2 by (metis mset_zero_iff)
  have sens2: "sensor ?self2 \<in> set Lidar_list" using sens by simp
  have cg: "decodes e ?s2 = decodes e ?s"
    by (rule decodes_cong; simp add: initialize_def path)
  have ff: "frame_file e ?self2 = frame_file e self"
    by (rule frame_file_cong) simp
  from ok perm have ok2: "\<forall>m\<in>set (topic_msgs ?self2 (bags ?self2)). decodes e ?s2 m"
    unfolding tm2 cg by (metis mset_eq_setD)
  from extract_lidar_manifest [OF avail2 sens2 ok2, of w0] obtain w2 where
    r2: "extract_lidar e ?self2 w0 = (None, w2)" and
    f2: "files w2 (path_join (getPathSave e ?self2) ''data.csv'') =
           Some (Text (savetxt ''# '' CLOUD_HEADER
             (sort (map (frame_file e ?self2) (topic_msgs ?self2 (bags ?self2))))))"
    by blast
  have "sort (map (frame_file e ?self2) (topic_msgs ?self2 (bags ?self2))) = ?rows"
    unfolding tm2 ff by (rule sort_mset_cong, rule mset_map_cong, rule perm)
  with f2 path f1 have f2': "files w2 (path_join (getPathSave e self) ''data.csv'') =
           files w1 (path_join (getPathSave e self) ''data.csv'')"
    by simp
  from f1 r2 f2' show ?thesis by simp
qed

text \<open>
  The theorem on the example extractor and on its segments with the messages swapped.
  The frames are named 2.ply and 1.ply in processing order; the manifest written is the
  header line followed by 1.ply and 2.ply, in both runs.
\<close>

theorem manifest_sorted_any_order_witness:
  "fst (extract_lidar ex_env (ex_self ''ouster'' False) w_empty) = None
   \<and> isAvailable (ex_self ''ouster'' False)
   \<and> sensor (ex_self ''ouster'' False) \<in> set Lidar_list
   \<and> mset (topic_msgs (ex_self ''ouster'' False) ex_bags_swapped) =
       mset (topic_msgs (ex_self ''ouster'' False) (bags (ex_self ''ouster'' False)))
   \<and> topic_msgs (ex_self ''ouster'' False) ex_bags_swapped \<noteq>
       topic_msgs (ex_self ''ouster'' False) (bags (ex_self ''ouster'' False))
   \<and> map (frame_file ex_env (ex_self ''ouster'' False))
        (topic_msgs (ex_self ''ouster'' False) (bags (ex_self ''ouster'' False))) = [''2.ply'', ''1.ply'']
   \<and> files (snd (extract_lidar ex_env (ex_self ''ouster'' False) w_empty)) ''out/data.csv'' =
       Some (Text (''# timestamp [ns]'' @ [CHR 0x0A] @ ''1.ply'' @ [CHR 0x0A] @ ''2.ply'' @ [CHR 0x0A]))
   \<and> (\<exists>w2. extract_lidar ex_env (ex_self ''ouster'' False\<lparr>bags := ex_bags_swapped\<rparr>) w_empty = (None, w2)
         \<and> files w2 ''out/data.csv'' =
             Some (Text (''# timestamp [ns]'' @ [CHR 0x0A] @ ''1.ply'' @ [CHR 0x0A] @ ''2.ply'' @ [CHR 0x0A])))"
proof -
  let ?s = "ex_self ''ouster'' False"
  have av: "isAvailable ?s"
    by (simp add: isAvailable_def read_messages_def ex_self_def)
  have sn: "sensor ?s \<in> set Lidar_list"
    by (simp add: ex_self_def Lidar_list_def OUSTER_def)
  have i: "initialize ex_env ?s = ?s"
    by (simp add: initialize_def ex_env_def ex_self_def)
  have p: "path_save ?s = Some ''out''" by (simp add: ex_self_def)
  have run: "fst (extract_lidar ex_env ?s w_empty) = None"
    by (simp add: extract_lidar_def av i Let_def ex_bags_run saveCSV_def p)
  then have h1: "extract_lidar ex_env ?s w_empty = (None, snd (extract_lidar ex_env ?s w_empty))"
    by (simp add: prod_eq_iff)
  have pm: "mset (topic_msgs ?s ex_bags_swapped) = mset (topic_msgs ?s (bags ?s))"
    unfolding ex_topic_msgs by simp
  have ne: "topic_msgs ?s ex_bags_swapped \<noteq> topic_msgs ?s (bags ?s)"
    unfolding ex_topic_msgs by (simp add: ex_msg_def)
  have gp: "getPathSave ex_env (?s\<lparr>bags := ex_bags_swapped\<rparr>) = getPathSave ex_env ?s"
    "getPathSave ex_env ?s = ''out''"
    by (simp_all add: ex_env_def)
  have nm: "map (frame_file ex_env ?s) (topic_msgs ?s (bags ?s)) = [''2.ply'', ''1.ply'']"
    by (simp add: ex_topic_msgs ex_frame_file)
  note m = manifest_sorted_any_order [OF h1 av sn pm gp(1), of w_empty]
  have f1: "files (snd (extract_lidar ex_env ?s w_empty)) ''out/data.csv'' =
       Some (Text (''# timestamp [ns]'' @ [CHR 0x0A] @ ''1.ply'' @ [CHR 0x0A] @ ''2.ply'' @ [CHR 0x0A]))"
    using m unfolding gp(2) ex_names nm ex_sort ex_manifest by simp
  from m obtain w2 where w2:
    "extract_lidar ex_env (?s\<lparr>bags := ex_bags_swapped\<rparr>) w_empty = (None, w2)"
    "files w2 (path_join (getPathSave ex_env ?s) ''data.csv'') =
       files (snd (extract_lidar ex_env ?s w_empty)) (path_join (getPathSave ex_env ?s) ''data.csv'')"
    by blast
  have f2: "files w2 ''out/data.csv'' =
       Some (Text (''# timestamp [ns]'' @ [CHR 0x0A] @ ''1.ply'' @ [CHR 0x0A] @ ''2.ply'' @ [CHR 0x0A]))"
    using w2(2) f1 unfolding gp(2) ex_names by simp
  have f3: "\<exists>w2. extract_lidar ex_env (?s\<lparr>bags := ex_bags_swapped\<rparr>) w_empty = (None, w2)
         \<and> files w2 ''out/data.csv'' =
             Some (Text (''# timestamp [ns]'' @ [CHR 0x0A] @ ''1.ply'' @ [CHR 0x0A] @ ''2.ply'' @ [CHR 0x0A]))"
    using w2(1) f2 by blast
  show ?thesis
    by (intro conjI) (rule run, rule av, rule sn, rule pm, rule ne, rule nm, rule f1, rule f3)
qed

subsection \<open>Points with a NaN value are dropped\<close>




subsection \<open>Velodyne: time offset zero when the flag is set\<close>

text \<open>
  Claim C5. With \<^verbatim>\<open>available_point_time\<close> set, the Velodyne decoder cannot fail
  on the points that \<^verbatim>\<open>read_points_list\<close> returned, it keeps every one of them, and
  the third attribute (the time offset) of every decoded point is 0.
\<close>

theorem velodyne_time_zero_when_flag_set:
  assumes "available_point_time self"
    and "read_points_list msg [''x'', ''y'', ''z'', ''intensity'', ''ring''] True = Inr points"
  shows "\<exists>xyz_s irt_s.
           velodyne_points e (available_point_time self) points [] [] = Inr (xyz_s, irt_s)
         \<and> length xyz_s = length points \<and> length irt_s = length points
         \<and> (\<forall>irt\<in>set irt_s. length irt = 3 \<and> irt ! 2 = Num 0)
         \<and> singleVelodyne e self msg data w =
             (let filename = frame_name (msg_to_timestamp e (PyMsg msg));
                  (r, w') = savePLY self filename xyz_s irt_s
                              (w\<lparr>trace := trace w @ [EvAppend filename]\<rparr>)
              in (r, data @ [filename], w'))"
proof -
  from read_points_list_Inr [OF assms(2)] have len: "\<forall>p\<in>set points. length p = 5" by auto
  let ?irt = "map (\<lambda>p. [p ! 3, p ! 4, Num 0]) points"
  have run: "velodyne_points e (available_point_time self) points [] [] = Inr (map (take 3) points, ?irt)"
    using len assms(1) by (simp add: velodyne_points_True)
  have dec: "singleVelodyne e self msg data w =
             (let filename = frame_name (msg_to_timestamp e (PyMsg msg));
                  (r, w') = savePLY self filename (map (take 3) points) ?irt
                              (w\<lparr>trace := trace w @ [EvAppend filename]\<rparr>)
              in (r, data @ [filename], w'))"
    using run assms by (simp add: singleVelodyne_def Let_def)
  from run dec show ?thesis
    by (intro exI [of _ "map (take 3) points"] exI [of _ ?irt]) simp
qed

text \<open>
  The theorem on the example message: one of its two points has a NaN coordinate and is
  not read; the other gets time offset 0.
\<close>

theorem velodyne_time_zero_witness:
  "available_point_time (ex_self ''velodyne'' True)
   \<and> read_points_list (ex_msg ''bb'') [''x'', ''y'', ''z'', ''intensity'', ''ring''] True =
       Inr [ [Num 1, Num 2, Num 3, Num 4, Num 6] ]
   \<and> (\<exists>xyz_s irt_s. velodyne_points ex_env True [ [Num 1, Num 2, Num 3, Num 4, Num 6] ] [] [] = Inr (xyz_s, irt_s)
         \<and> length irt_s = 1 \<and> (\<forall>irt\<in>set irt_s. length irt = 3 \<and> irt ! 2 = Num 0))"
proof -
  have h1: "available_point_time (ex_self ''velodyne'' True)" by (simp add: ex_self_def)
  have h2: "read_points_list (ex_msg ''bb'') [''x'', ''y'', ''z'', ''intensity'', ''ring''] True =
       Inr [ [Num 1, Num 2, Num 3, Num 4, Num 6] ]"
    by (simp add: ex_read_list ex_msg_def)
  from velodyne_time_zero_when_flag_set [OF h1 h2, of ex_env "[]" w_empty] h1 h2
  show ?thesis by auto
qed

subsection \<open>The normals channel of a point-cloud file\<close>

text \<open>
  Claim C6 says that the geometry is written whatever the attribute array is, also for
  the Hokuyo decoder. A frame without points is not written at all: \<^verbatim>\<open>savePLY\<close>
  hands \<^verbatim>\<open>np.array([])\<close> to \<^verbatim>\<open>Vector3dVector\<close>, which raises, and no file
  appears. The Hokuyo decoder gets there on a message whose only point has a NaN
  coordinate: the filename is appended, then the call raises.
\<close>

theorem empty_frame_not_written_counterexample:
  "savePLY (ex_self ''hokuyo'' False) ''4.ply'' [] [] w_empty =
     (Some (RuntimeError ''Vector3dVector''), w_empty)
   \<and> singleHokuyo ex_env (ex_self ''hokuyo'' False) ex_void_msg [] w_empty =
     (Some (RuntimeError ''Vector3dVector''), [''4.ply''],
      \<lparr>files = Map.empty, trace = [EvLoad ''void'', EvAppend ''4.ply'']\<rparr>)"
proof -
  have d: "path_save (ex_self ''hokuyo'' False) = Some ''out''" by (simp add: ex_self_def)
  show ?thesis
    by (simp add: savePLY_empty [OF d] ex_hokuyo_void_run w_empty_def)
qed

text \<open>
  Claim C6, amended. For a frame with at least one point (rows of three coordinates,
  attribute rows of three values) \<^verbatim>\<open>savePLY\<close> writes the points; it stores the
  attribute rows as the normals channel exactly when some attribute value of the frame is
  not zero, and otherwise (no rows at all, or only zeros) the file has no normals channel.
  A frame that \<^verbatim>\<open>singleHokuyo\<close> decodes without an error has at least one point and,
  its attribute array being empty, is written without the channel.
\<close>

theorem normals_channel_only_when_nonzero:
  assumes "path_save self = Some dir"
    and "points \<noteq> []" and "\<forall>row\<in>set points. length row = 3"
    and "\<forall>row\<in>set normals. length row = 3"
  shows "\<exists>w' ch. savePLY self nm points normals w = (None, w')
           \<and> files w' (path_join dir nm) = Some (PLY points ch)
           \<and> (ch = Some normals \<longleftrightarrow> (\<exists>row\<in>set normals. \<exists>v\<in>set row. v \<noteq> Num 0))
           \<and> (ch \<noteq> Some normals \<longrightarrow> ch = None)
           \<and> (\<forall>d1 w1. singleHokuyo e self msg data w = (None, d1, w1) \<longrightarrow>
                 (\<exists>pts. pts \<noteq> [] \<and> files w1 (path_join dir (last d1)) = Some (PLY pts None)))"
proof -
  have hk: "\<forall>d1 w1. singleHokuyo e self msg data w = (None, d1, w1) \<longrightarrow>
                 (\<exists>pts. pts \<noteq> [] \<and> files w1 (path_join dir (last d1)) = Some (PLY pts None))"
  proof (intro allI impI)
    fix d1 w1 assume run: "singleHokuyo e self msg data w = (None, d1, w1)"
    from singleHokuyo_None [OF run] assms(1) obtain cloud pl loads ex where
      c: "project_scan e (msg_text msg) = Inr cloud \<and> pl = msg_text msg \<and> loads = [EvLoad pl]
        \<or> project_scan e (msg_text msg) = Inl ex \<and> pl = py_replace ''nan'' ''60'' (msg_text msg)
           \<and> project_scan e pl = Inr cloud \<and> loads = [EvLoad (msg_text msg), EvLoad pl]" and
      l: "\<forall>p\<in>set (read_points cloud [''x'', ''y'', ''z''] True). length p = 3" and
      n: "read_points cloud [''x'', ''y'', ''z''] True \<noteq> []"
      by blast
    from run n show "\<exists>pts. pts \<noteq> [] \<and> files w1 (path_join dir (last d1)) = Some (PLY pts None)"
      unfolding singleHokuyo_eq [OF assms(1) c l n] by (auto simp: files_write_file)
  qed
  with assms show ?thesis
    by (simp add: savePLY_ready np_any_iff files_write_file)
qed

text \<open>
  The theorem on a one-point frame with an all-zero attribute row, with no attribute row
  and with a row of nonzero attributes.
\<close>

theorem normals_channel_witness:
  "(\<exists>w'. savePLY (ex_self ''ouster'' False) ''7.ply'' [ [Num 1, Num 2, Num 3] ] [ [Num 0, Num 0, Num 0] ] w_empty = (None, w')
        \<and> files w' ''out/7.ply'' = Some (PLY [ [Num 1, Num 2, Num 3] ] None))
   \<and> (\<exists>w'. savePLY (ex_self ''ouster'' False) ''7.ply'' [ [Num 1, Num 2, Num 3] ] [] w_empty = (None, w')
        \<and> files w' ''out/7.ply'' = Some (PLY [ [Num 1, Num 2, Num 3] ] None))
   \<and> (\<exists>w'. savePLY (ex_self ''ouster'' False) ''7.ply'' [ [Num 1, Num 2, Num 3] ] [ [Num 4, Num 6, Num 5] ] w_empty = (None, w')
        \<and> files w' ''out/7.ply'' = Some (PLY [ [Num 1, Num 2, Num 3] ] (Some [ [Num 4, Num 6, Num 5] ])))"
proof -
  have d: "path_save (ex_self ''ouster'' False) = Some ''out''" by (simp add: ex_self_def)
  have p: "[ [Num 1, Num 2, Num 3] ] \<noteq> []" "\<forall>row\<in>set [ [Num 1, Num 2, Num 3] ]. length row = 3"
    "\<forall>row\<in>set [ [Num 0, Num 0, Num 0 :: fval] ]. length row = 3"
    "\<forall>row\<in>set ([] :: fval list list). length row = 3"
    "\<forall>row\<in>set [ [Num 4, Num 6, Num 5] ]. length row = 3"
    by simp_all
  have j: "path_join ''out'' ''7.ply'' = ''out/7.ply''" by (simp add: path_join_def)
  from normals_channel_only_when_nonzero [OF d p(1) p(2) p(3), of "''7.ply''" w_empty ex_env "ex_msg ''ok''" "[]"]
       normals_channel_only_when_nonzero [OF d p(1) p(2) p(4), of "''7.ply''" w_empty ex_env "ex_msg ''ok''" "[]"]
       normals_channel_only_when_nonzero [OF d p(1) p(2) p(5), of "''7.ply''" w_empty ex_env "ex_msg ''ok''" "[]"]
  show ?thesis
    unfolding j by auto
qed

subsection \<open>The constructor checks the sensor type\<close>

text \<open>
  Claim C7. Constructing an extractor with a sensor type outside hokuyo, ouster, velodyne
  fails with the \<^verbatim>\<open>ValueError\<close> of the membership test; with one of the three
  values it succeeds and yields an extractor of that sensor whose point-time flag is unset.
  The constructor is a function of its arguments alone: it takes no world and returns
  none, so it reads no message and writes no file.
\<close>

theorem init_sensor_check:
  "(lidar \<notin> {''hokuyo'', ''ouster'', ''velodyne''} \<longrightarrow>
      LidarExtraction_init tp bs rt lidar =
        Inl (ValueError ([CHR 0x22] @ lidar @ [CHR 0x22] @ '' lidar sensor type not supported'')))
   \<and> (lidar \<in> {''hokuyo'', ''ouster'', ''velodyne''} \<longrightarrow>
      (\<exists>self. LidarExtraction_init tp bs rt lidar = Inr self \<and> sensor self = lidar
         \<and> name self = lidar \<and> \<not> available_point_time self \<and> path_save self = None))"
  by (auto simp: LidarExtraction_init_def Lidar_list_def HOKUYO_def OUSTER_def VELODYNE_def)

text \<open>
  The theorem at the sensor types \<open>radar\<close> and \<open>ouster\<close>.
\<close>

theorem init_sensor_check_witness:
  "LidarExtraction_init ''/points'' [] ''data'' ''radar'' =
     Inl (ValueError ([CHR 0x22] @ ''radar'' @ [CHR 0x22] @ '' lidar sensor type not supported''))
   \<and> (\<exists>self. LidarExtraction_init ''/points'' [] ''data'' ''ouster'' = Inr self \<and> sensor self = ''ouster''
         \<and> name self = ''ouster'' \<and> \<not> available_point_time self \<and> path_save self = None)"
  using init_sensor_check [of "''radar''" "''/points''" "[]" "''data''"]
        init_sensor_check [of "''ouster''" "''/points''" "[]" "''data''"]
  by simp

subsection \<open>Order of the manifest append and the file write\<close>

text \<open>
  Claim C8 says that the point-cloud file is written first and the filename appended to
  the accumulator afterwards. All three decoders append the filename before they read the
  points, and write the file last: on the example message the trace is the append followed
  by the write.
\<close>

theorem append_before_write_counterexample:
  "dispatch ex_env (ex_self ''ouster'' False) (ex_msg ''bb'') [] w_empty =
     (None, [''2.ply''],
      \<lparr>files = [''out/2.ply'' \<mapsto> PLY [ [Num 1, Num 2, Num 3] ] (Some [ [Num 4, Num 6, Num 5] ])],
       trace = [EvAppend ''2.ply'', EvWrite ''out/2.ply'']\<rparr>)"
proof -
  have c: "msg_cloud (ex_msg ''bb'') = Some ex_cloud \<or> msg_cloud (ex_msg ''bb'') = Some ex_dim_cloud"
    "msg_text (ex_msg ''bb'') = ''bb''"
    by (simp_all add: ex_msg_def)
  show ?thesis
    by (simp add: ex_dispatch_ouster ex_ouster_run [OF c(1)] c(2) ex_names w_empty_def write_file_def)
qed

text \<open>
  Claim C8, amended. For every message that a decoder of a supported sensor type decodes
  without an error, the effects of the call are, in this order: the calls of
  \<^verbatim>\<open>loadHokuyo\<close> (none for Ouster and Velodyne), the append of the frame's filename
  to the accumulator, the write of the frame's file. The append always precedes the write.
\<close>

theorem append_precedes_write:
  assumes "dispatch e self msg data w = (None, data', w')"
    and "sensor self \<in> set Lidar_list"
  shows "\<exists>dir fn loads. path_save self = Some dir \<and> data' = data @ [fn]
           \<and> list_all is_load loads
           \<and> trace w' = trace w @ loads @ [EvAppend fn, EvWrite (path_join dir fn)]"
  using dispatch_success [OF assms] by blast

text \<open>
  The theorem on a Hokuyo message that is decoded on the retry.
\<close>

theorem append_precedes_write_witness:
  "sensor (ex_self ''hokuyo'' False) \<in> set Lidar_list
   \<and> dispatch ex_env (ex_self ''hokuyo'' False) (ex_msg ''nan'') [] w_empty =
       (None, [''2.ply''],
        \<lparr>files = [''out/2.ply'' \<mapsto> PLY [ [Num 1, Num 2, Num 3] ] None],
         trace = [EvLoad ''nan'', EvLoad ''60'', EvAppend ''2.ply'', EvWrite ''out/2.ply'']\<rparr>)
   \<and> (\<exists>dir fn loads. path_save (ex_self ''hokuyo'' False) = Some dir
         \<and> [''2.ply''] = [] @ [fn] \<and> list_all is_load loads
         \<and> [EvLoad ''nan'', EvLoad ''60'', EvAppend ''2.ply'', EvWrite ''out/2.ply''] =
             trace w_empty @ loads @ [EvAppend fn, EvWrite (path_join dir fn)])"
proof -
  have h1: "sensor (ex_self ''hokuyo'' False) \<in> set Lidar_list"
    by (simp add: ex_self_def Lidar_list_def HOKUYO_def)
  have s: "sensor (ex_self ''hokuyo'' False) = HOKUYO"
    by (simp add: ex_self_def HOKUYO_def)
  have h2: "dispatch ex_env (ex_self ''hokuyo'' False) (ex_msg ''nan'') [] w_empty =
       (None, [''2.ply''],
        \<lparr>files = [''out/2.ply'' \<mapsto> PLY [ [Num 1, Num 2, Num 3] ] None],
         trace = [EvLoad ''nan'', EvLoad ''60'', EvAppend ''2.ply'', EvWrite ''out/2.ply'']\<rparr>)"
    by (simp add: dispatch_def s ex_hokuyo_retry_run w_empty_def write_file_def)
  from append_precedes_write [OF h2 h1] h1 h2 show ?thesis by simp
qed

subsection \<open>Nothing available: nothing done\<close>

text \<open>
  Claim C9. If no segment holds a message of the configured topic, the extraction is
  not available and \<^verbatim>\<open>extract\<close> returns at once without an error: the world is
  unchanged, so no point-cloud file and no manifest are produced and no effect is traced.
\<close>

theorem extract_skips_when_nothing_available:
  assumes "\<forall>b\<in>set (bags self). read_messages b [topic self] = []"
  shows "\<not> isAvailable self \<and> extract_lidar e self w = (None, w)"
  using assms by (simp add: extract_lidar_def isAvailable_def list_ex_iff)

text \<open>
  The theorem for the example extractor listening on a topic that no segment records.
\<close>

theorem extract_skips_witness:
  "list_all (\<lambda>b. read_messages b [''/scan''] = []) (bags (ex_self ''ouster'' False\<lparr>topic := ''/scan''\<rparr>))
   \<and> extract_lidar ex_env (ex_self ''ouster'' False\<lparr>topic := ''/scan''\<rparr>) w_empty = (None, w_empty)"
  using extract_skips_when_nothing_available [of "ex_self ''ouster'' False\<lparr>topic := ''/scan''\<rparr>" ex_env w_empty]
  by (simp add: ex_self_def read_messages_def)

subsection \<open>One manifest entry and one file per message\<close>

text \<open>
  Claim C10 says that a filename is appended and a file written for every message, also
  when the decoded frame has no valid point. On such a message the filename is appended
  and then \<^verbatim>\<open>savePLY\<close> raises: no file is written for it, and the error ends the
  run. The only point of the example message has a NaN coordinate.
\<close>

theorem empty_frame_entry_without_file_counterexample:
  "read_points_list ex_void_msg [''x'', ''y'', ''z'', ''intensity'', ''t'', ''ring''] True = Inr []
   \<and> dispatch ex_env (ex_self ''ouster'' False) ex_void_msg [] w_empty =
       (Some (RuntimeError ''Vector3dVector''), [''4.ply''],
        \<lparr>files = Map.empty, trace = [EvAppend ''4.ply'']\<rparr>)"
proof -
  have r: "read_points_list ex_void_msg [''x'', ''y'', ''z'', ''intensity'', ''t'', ''ring''] True = Inr []"
    by (simp add: ex_read_list ex_void_msg_def)
  have d: "dispatch ex_env (ex_self ''ouster'' False) ex_void_msg [] w_empty =
       (Some (RuntimeError ''Vector3dVector''), [''4.ply''],
        \<lparr>files = Map.empty, trace = [EvAppend ''4.ply'']\<rparr>)"
    by (simp add: ex_dispatch_ouster ex_ouster_void_run w_empty_def)
  show ?thesis by (intro conjI) (rule r, rule d)
qed

text \<open>
  Claim C10, amended. A decoder call never appends more than one filename. When the
  loops of \<^verbatim>\<open>extract\<close> have processed the k messages of the topic without an
  error, the accumulator has grown by exactly k entries, the entry of each message is the
  filename of its frame, \<open>str timestamp @ ".ply"\<close>, in processing order, these k
  filenames are exactly the appends of the trace, and a point-cloud file holding at least
  one point has been written for each, in the same order, and is on disk.
\<close>

theorem one_entry_and_file_per_message:
  assumes "extract_bags e self bs data w = (None, data', w')"
    and "sensor self \<in> set Lidar_list" and "path_save self = Some dir"
  shows "data' = data @ map (frame_file e self) (topic_msgs self bs)
       \<and> length data' = length data + length (topic_msgs self bs)
       \<and> appended (trace w') = appended (trace w) @ map (frame_file e self) (topic_msgs self bs)
       \<and> written (trace w') =
           written (trace w) @ map (\<lambda>m. path_join dir (frame_file e self m)) (topic_msgs self bs)
       \<and> (\<forall>m\<in>set (topic_msgs self bs). is_frame w' (path_join dir (frame_file e self m)))
       \<and> (\<forall>m d0 w0. \<exists>ns. fst (snd (dispatch e self m d0 w0)) = d0 @ ns \<and> length ns \<le> 1)"
proof -
  from assms(1) have "extract_msgs e self (topic_msgs self bs) data w = (None, data', w')"
    by (simp add: extract_bags_concat)
  from extract_msgs_success [OF this assms(2,3)] dispatch_at_most_one [of e self]
  show ?thesis by simp
qed

text \<open>
  The theorem on the two segments of the example extractor.
\<close>

theorem one_entry_and_file_per_message_witness:
  "sensor (ex_self ''ouster'' False) \<in> set Lidar_list
   \<and> path_save (ex_self ''ouster'' False) = Some ''out''
   \<and> topic_msgs (ex_self ''ouster'' False) (bags (ex_self ''ouster'' False)) = [ex_msg ''bb'', ex_msg ''a'']
   \<and> (\<exists>w'. extract_bags ex_env (ex_self ''ouster'' False) (bags (ex_self ''ouster'' False)) [] w_empty =
              (None, [''2.ply'', ''1.ply''], w')
         \<and> appended (trace w') = [''2.ply'', ''1.ply'']
         \<and> written (trace w') = [''out/2.ply'', ''out/1.ply'']
         \<and> is_frame w' ''out/2.ply'' \<and> is_frame w' ''out/1.ply'')"
proof -
  let ?s = "ex_self ''ouster'' False"
  let ?W = "\<lparr>files = [''out/2.ply'' \<mapsto> PLY [ [Num 1, Num 2, Num 3] ] (Some [ [Num 4, Num 6, Num 5] ]),
                ''out/1.ply'' \<mapsto> PLY [ [Num 1, Num 2, Num 3] ] (Some [ [Num 4, Num 6, Num 5] ])],
       trace = [EvAppend ''2.ply'', EvWrite ''out/2.ply'', EvAppend ''1.ply'', EvWrite ''out/1.ply'']\<rparr>"
  have h1: "sensor ?s \<in> set Lidar_list"
    by (simp add: ex_self_def Lidar_list_def OUSTER_def)
  have h2: "path_save ?s = Some ''out''"
    by (simp add: ex_self_def)
  have a0: "appended (trace w_empty) = []" "written (trace w_empty) = []"
    by (simp_all add: appended_def written_def w_empty_def)
  from one_entry_and_file_per_message [OF ex_bags_run h1 h2]
  have "appended (trace ?W) = [''2.ply'', ''1.ply'']
      \<and> written (trace ?W) = [''out/2.ply'', ''out/1.ply'']
      \<and> is_frame ?W ''out/2.ply'' \<and> is_frame ?W ''out/1.ply''"
    unfolding ex_topic_msgs a0 by (simp add: ex_frame_file ex_names)
  with h1 h2 ex_bags_run show ?thesis
    by (simp add: ex_topic_msgs)
qed

end
